theory Spec2Isabelle
  imports Main
begin

section \<open>JavaScript values\<close>

text \<open>
  The server handles JSON request bodies and JSON replies of the completion service.
  A value is what \<^verbatim>\<open>JSON.parse\<close> can produce, and \<open>JUndefined\<close> for a property
  that is absent. Strings are ASCII text. Numbers are integers: the code only tests
  them for truthiness and converts them to text. An object is the list of its own
  properties in the order of their enumeration, with distinct keys.
\<close>

datatype jsval =
    JUndefined
  | JNull
  | JBool bool
  | JNum int
  | JStr string
  | JArr "jsval list"
  | JObj "(string \<times> jsval) list"

datatype js_error =
    TypeError
  | SyntaxError
  | NetworkError string
  | UpstreamError string

text \<open>\<^verbatim>\<open>ToBoolean\<close>: the operand of \<^verbatim>\<open>!x\<close>, \<^verbatim>\<open>x || y\<close>, \<^verbatim>\<open>x && y\<close> and \<^verbatim>\<open>.filter(Boolean)\<close>.\<close>

fun truthy :: "jsval \<Rightarrow> bool" where
  "truthy JUndefined = False"
| "truthy JNull = False"
| "truthy (JBool b) = b"
| "truthy (JNum n) = (n \<noteq> 0)"
| "truthy (JStr s) = (s \<noteq> [])"
| "truthy (JArr xs) = True"
| "truthy (JObj kvs) = True"

text \<open>\<^verbatim>\<open>a || b\<close> and \<^verbatim>\<open>a ?? b\<close>.\<close>

definition js_or :: "jsval \<Rightarrow> jsval \<Rightarrow> jsval" where
  "js_or a b = (if truthy a then a else b)"

definition js_nullish :: "jsval \<Rightarrow> jsval \<Rightarrow> jsval" where
  "js_nullish a b = (if a = JUndefined \<or> a = JNull then b else a)"

definition isArray :: "jsval \<Rightarrow> bool" where
  "isArray v = (case v of JArr xs \<Rightarrow> True | _ \<Rightarrow> False)"

text \<open>\<^verbatim>\<open>typeof v === "object"\<close>, which holds of \<^verbatim>\<open>null\<close>, of arrays and of objects.\<close>

definition typeof_object :: "jsval \<Rightarrow> bool" where
  "typeof_object v = (case v of JNull \<Rightarrow> True | JArr xs \<Rightarrow> True | JObj kvs \<Rightarrow> True | _ \<Rightarrow> False)"

text \<open>
  Reading a property \<^verbatim>\<open>v.k\<close> whose name \<open>k\<close> no prototype defines (the code reads
  \<^verbatim>\<open>word\<close>, \<^verbatim>\<open>sentences\<close>, \<^verbatim>\<open>translations\<close>, \<^verbatim>\<open>role\<close>, \<^verbatim>\<open>content\<close> and the fields
  of the request body): \<^verbatim>\<open>undefined\<close> and \<^verbatim>\<open>null\<close> raise a TypeError, an object gives
  its own property, every other value gives \<^verbatim>\<open>undefined\<close>.
\<close>

definition field :: "(string \<times> jsval) list \<Rightarrow> string \<Rightarrow> jsval" where
  "field kvs k = (case map_of kvs k of None \<Rightarrow> JUndefined | Some v \<Rightarrow> v)"

definition get_prop :: "jsval \<Rightarrow> string \<Rightarrow> js_error + jsval" where
  "get_prop v k =
     (case v of
        JUndefined \<Rightarrow> Inl TypeError
      | JNull \<Rightarrow> Inl TypeError
      | JObj kvs \<Rightarrow> Inr (field kvs k)
      | _ \<Rightarrow> Inr JUndefined)"

text \<open>Optional chaining \<^verbatim>\<open>v?.k\<close>.\<close>

definition get_opt :: "jsval \<Rightarrow> string \<Rightarrow> jsval" where
  "get_opt v k = (case v of JObj kvs \<Rightarrow> field kvs k | _ \<Rightarrow> JUndefined)"

subsection \<open>Strings\<close>

text \<open>
  The white space and line terminators of ECMAScript within ASCII, which \<^verbatim>\<open>trim\<close>
  removes at both ends, and the case conversions of the ASCII letters. A character
  outside ASCII is not modelled: here it is no white space and has no other case.
\<close>

definition is_space :: "char \<Rightarrow> bool" where
  "is_space c = (c \<in> set [CHR 0x09, CHR 0x0A, CHR 0x0B, CHR 0x0C, CHR 0x0D, CHR 0x20])"

definition js_trim :: "string \<Rightarrow> string" where
  "js_trim s = rev (dropWhile is_space (rev (dropWhile is_space s)))"

definition lower_letters :: string where
  "lower_letters = ''abcdefghijklmnopqrstuvwxyz''"

definition upper_letters :: string where
  "upper_letters = ''ABCDEFGHIJKLMNOPQRSTUVWXYZ''"

definition upper_char :: "char \<Rightarrow> char" where
  "upper_char c = (case map_of (zip lower_letters upper_letters) c of None \<Rightarrow> c | Some u \<Rightarrow> u)"

definition lower_char :: "char \<Rightarrow> char" where
  "lower_char c = (case map_of (zip upper_letters lower_letters) c of None \<Rightarrow> c | Some l \<Rightarrow> l)"

definition toUpperCase :: "string \<Rightarrow> string" where
  "toUpperCase s = map upper_char s"

definition toLowerCase :: "string \<Rightarrow> string" where
  "toLowerCase s = map lower_char s"

fun digits :: "nat \<Rightarrow> string" where
  "digits n =
     (if n < 10 then [''0123456789'' ! n] else digits (n div 10) @ [''0123456789'' ! (n mod 10)])"

declare digits.simps [simp del]

definition number_text :: "int \<Rightarrow> string" where
  "number_text n = (if n < 0 then CHR ''-'' # digits (nat (- n)) else digits (nat n))"

text \<open>
  \<^verbatim>\<open>String(v)\<close> and \<^verbatim>\<open>xs.join(sep)\<close>. An array prints its elements joined by
  commas, \<^verbatim>\<open>null\<close> and \<^verbatim>\<open>undefined\<close> elements as the empty text. An object prints as
  \<^verbatim>\<open>[object Object]\<close>; when it has an own property \<^verbatim>\<open>toString\<close> (which, coming from
  JSON, is not callable) the conversion raises a TypeError.
\<close>

fun js_String :: "jsval \<Rightarrow> js_error + string"
  and js_join :: "string \<Rightarrow> jsval list \<Rightarrow> js_error + string"
  and js_element :: "jsval \<Rightarrow> js_error + string" where
  "js_String JUndefined = Inr ''undefined''"
| "js_String JNull = Inr ''null''"
| "js_String (JBool b) = Inr (if b then ''true'' else ''false'')"
| "js_String (JNum n) = Inr (number_text n)"
| "js_String (JStr s) = Inr s"
| "js_String (JArr xs) = js_join '','' xs"
| "js_String (JObj kvs) =
     (if ''toString'' \<in> set (map fst kvs) then Inl TypeError else Inr ''[object Object]'')"
| "js_join sep [] = Inr []"
| "js_join sep (x # xs) =
     (case js_element x of
        Inl e \<Rightarrow> Inl e
      | Inr s \<Rightarrow>
          (if xs = [] then Inr s
           else (case js_join sep xs of Inl e \<Rightarrow> Inl e | Inr t \<Rightarrow> Inr (s @ sep @ t))))"
| "js_element JUndefined = Inr []"
| "js_element JNull = Inr []"
| "js_element v = js_String v"

definition is_string :: "jsval \<Rightarrow> bool" where
  "is_string v = (case v of JStr s \<Rightarrow> True | _ \<Rightarrow> False)"

text \<open>The elements of an array, and the default of a destructuring pattern \<^verbatim>\<open>{ k = d }\<close>.\<close>

definition elements :: "jsval \<Rightarrow> jsval list" where
  "elements v = (case v of JArr xs \<Rightarrow> xs | _ \<Rightarrow> [])"

definition dflt :: "jsval \<Rightarrow> jsval \<Rightarrow> jsval" where
  "dflt v d = (if v = JUndefined then d else v)"

section \<open>Helpers of the server\<close>

text \<open>
  \<^verbatim>\<open>function normalizeLevel(level) {
    const lvl = String(level || "B2").toUpperCase().trim();
    const allowed = new Set(["A1", "A2", "B1", "B2", "C1"]);
    return allowed.has(lvl) ? lvl : "B2";
  }\<close>
\<close>

definition allowed :: "string list" where
  "allowed = [''A1'', ''A2'', ''B1'', ''B2'', ''C1'']"

definition normalizeLevel :: "jsval \<Rightarrow> js_error + string" where
  "normalizeLevel level =
     (case js_String (js_or level (JStr ''B2'')) of
        Inl e \<Rightarrow> Inl e
      | Inr s \<Rightarrow>
          (let lvl = js_trim (toUpperCase s)
           in Inr (if lvl \<in> set allowed then lvl else ''B2'')))"

subsection \<open>Sequencing computations that may throw\<close>

definition and_then :: "'e + 'a \<Rightarrow> ('a \<Rightarrow> 'e + 'b) \<Rightarrow> 'e + 'b" where
  "and_then r f = (case r of Inl e \<Rightarrow> Inl e | Inr x \<Rightarrow> f x)"

text \<open>\<^verbatim>\<open>xs.map(f)\<close> for a callback that may throw: the first exception ends the loop.\<close>

fun map_throwing :: "('a \<Rightarrow> 'e + 'b) \<Rightarrow> 'a list \<Rightarrow> 'e + 'b list" where
  "map_throwing f [] = Inr []"
| "map_throwing f (x # xs) =
     (case f x of
        Inl e \<Rightarrow> Inl e
      | Inr y \<Rightarrow> (case map_throwing f xs of Inl e \<Rightarrow> Inl e | Inr ys \<Rightarrow> Inr (y # ys)))"

text \<open>\<^verbatim>\<open>xs.join(sep)\<close> on strings, \<^verbatim>\<open>s.startsWith(p)\<close>, and \<^verbatim>\<open>s || d\<close> on a string.\<close>

fun join :: "string \<Rightarrow> string list \<Rightarrow> string" where
  "join sep [] = []"
| "join sep [x] = x"
| "join sep (x # y # ys) = x @ sep @ join sep (y # ys)"

definition startsWith :: "string \<Rightarrow> string \<Rightarrow> bool" where
  "startsWith s p = (take (length p) s = p)"

definition or_str :: "string \<Rightarrow> string \<Rightarrow> string" where
  "or_str s d = (if s = [] then d else s)"

text \<open>\<^verbatim>\<open>String(v || "").trim()\<close>, the cleaning applied to every word, sentence and code.\<close>

definition clean_text :: "jsval \<Rightarrow> js_error + string" where
  "clean_text v = and_then (js_String (js_or v (JStr []))) (\<lambda>s. Inr (js_trim s))"

section \<open>The outside world\<close>

text \<open>
  The server calls code it does not define: the platform's JSON and URL parsers and
  \<^verbatim>\<open>fetch\<close>, the cheerio HTML library, and the client of the completion service. A
  handler takes them as a \<open>world\<close>, and returns with its response the outbound calls it
  made, in order. A failed or timed-out call is a call that returns an error.

  A template literal is modelled by the values it interpolates, in order; its fixed
  text is left out. \<open>Text\<close> is a string placed in the template, \<open>Json\<close> a value
  placed there through \<^verbatim>\<open>JSON.stringify\<close>.
\<close>

record location =
  protocol :: string
  hostname :: string
  pathname :: string

record http_response =
  resp_ok :: bool
  resp_text :: "js_error + string"

datatype selector = MetaProperty string | MetaName string | LinkRel string | Tag string | ScriptType string

record page =
  attr_of :: "selector \<Rightarrow> string \<Rightarrow> string option"
  text_of :: "selector \<Rightarrow> string"
  first_text :: "selector \<Rightarrow> string"
  each_text :: "selector \<Rightarrow> string list"

datatype part = Text string | Json jsval

text \<open>
  A message is built by the handler from a role and a template, or is an element of the
  request passed on as it came (\<open>Raw\<close>).
\<close>

datatype message = Message string "part list" | Raw jsval

record world =
  JSON_parse :: "string \<Rightarrow> jsval option"
  new_URL :: "string \<Rightarrow> location option"
  fetch :: "string \<Rightarrow> js_error + http_response"
  cheerio_load :: "string \<Rightarrow> js_error + page"
  chat_completions_create :: "message list \<Rightarrow> js_error + string option"
  responses_create :: "message list \<Rightarrow> js_error + string"

datatype effect = Fetched string | Completed "message list"

datatype response = Json_response nat jsval | Text_response nat string

fun status :: "response \<Rightarrow> nat" where
  "status (Json_response n b) = n"
| "status (Text_response n t) = n"

text \<open>
  \<^verbatim>\<open>function parseJsonSafely(text) {
    try { return JSON.parse(text); } catch (e) { return null; }
  }\<close>
\<close>

definition parseJsonSafely :: "world \<Rightarrow> string \<Rightarrow> jsval" where
  "parseJsonSafely w text = (case JSON_parse w text of None \<Rightarrow> JNull | Some v \<Rightarrow> v)"

text \<open>The text \<^verbatim>\<open>err?.message || err\<close> of a caught exception.\<close>

fun message_of :: "js_error \<Rightarrow> string" where
  "message_of TypeError = ''TypeError''"
| "message_of SyntaxError = ''SyntaxError''"
| "message_of (NetworkError m) = m"
| "message_of (UpstreamError m) = m"

definition error_body :: "string \<Rightarrow> jsval" where
  "error_body m = JObj [(''error'', JStr m)]"

text \<open>
  \<^verbatim>\<open>completion.choices?.[0]?.message?.content?.trim() || ""\<close>: the completion client
  returns the content of the first choice, \<open>None\<close> where the chain is undefined or null.
\<close>

definition trimmed_content :: "string option \<Rightarrow> string" where
  "trimmed_content c = (case c of None \<Rightarrow> [] | Some s \<Rightarrow> js_trim s)"

text \<open>\<^verbatim>\<open>completion.choices?.[0]?.message?.content || ""\<close>\<close>

definition plain_content :: "string option \<Rightarrow> string" where
  "plain_content c = (case c of None \<Rightarrow> [] | Some s \<Rightarrow> s)"

section \<open>The context fetcher\<close>

text \<open>
  \<^verbatim>\<open>function isAllowedTedEdUrl(url) {
    try {
      const u = new URL(url);
      if (u.protocol !== "https:") return false;
      return u.hostname === "ed.ted.com";
    } catch { return false; }
  }\<close>
\<close>

definition isAllowedTedEdUrl :: "world \<Rightarrow> string \<Rightarrow> bool" where
  "isAllowedTedEdUrl w url =
     (case new_URL w url of
        None \<Rightarrow> False
      | Some u \<Rightarrow> if protocol u \<noteq> ''https:'' then False else hostname u = ''ed.ted.com'')"

text \<open>
  \<^verbatim>\<open>function isValidTedEdLessonUrl(urlStr) {
    try {
      const u = new URL(urlStr);
      return (u.protocol === "https:" && u.hostname === "ed.ted.com" &&
              u.pathname.startsWith("/lessons/"));
    } catch { return false; }
  }\<close>
\<close>

definition isValidTedEdLessonUrl :: "world \<Rightarrow> string \<Rightarrow> bool" where
  "isValidTedEdLessonUrl w urlStr =
     (case new_URL w urlStr of
        None \<Rightarrow> False
      | Some u \<Rightarrow>
          protocol u = ''https:'' \<and> hostname u = ''ed.ted.com'' \<and>
          startsWith (pathname u) ''/lessons/'')"

text \<open>\<^verbatim>\<open>$(sel).attr("content") || d\<close>.\<close>

definition attr_or :: "string option \<Rightarrow> string \<Rightarrow> string" where
  "attr_or a d = (case a of None \<Rightarrow> d | Some s \<Rightarrow> or_str s d)"

record ted_context =
  url :: string
  title :: string
  description :: string
  extractedText :: string
  ok :: bool
  reason :: "string option"

text \<open>
  One round of the loop over the JSON-LD scripts of the page. An exception inside
  the \<^verbatim>\<open>try\<close> leaves the assignments made before it.
  \<^verbatim>\<open>try {
    const json = JSON.parse($(el).text());
    if (!ldTitle && json?.name) ldTitle = String(json.name).trim();
    if (!ldDesc && json?.description) ldDesc = String(json.description).trim();
  } catch {}\<close>
\<close>

definition ld_step :: "world \<Rightarrow> string \<Rightarrow> string \<times> string \<Rightarrow> string \<times> string" where
  "ld_step w script acc =
     (case acc of (ldTitle, ldDesc) \<Rightarrow>
        (case JSON_parse w script of
           None \<Rightarrow> (ldTitle, ldDesc)
         | Some json \<Rightarrow>
             (case (if ldTitle = [] \<and> truthy (get_opt json ''name'')
                    then and_then (js_String (get_opt json ''name'')) (\<lambda>s. Inr (js_trim s))
                    else Inr ldTitle) of
                Inl e \<Rightarrow> (ldTitle, ldDesc)
              | Inr t \<Rightarrow>
                  (case (if ldDesc = [] \<and> truthy (get_opt json ''description'')
                         then and_then (js_String (get_opt json ''description''))
                                (\<lambda>s. Inr (js_trim s))
                         else Inr ldDesc) of
                     Inl e \<Rightarrow> (t, ldDesc)
                   | Inr d \<Rightarrow> (t, d)))))"

text \<open>The statements of \<^verbatim>\<open>fetchTedEdContext\<close> after \<^verbatim>\<open>cheerio.load\<close>; none of them throws.\<close>

definition extract_context :: "world \<Rightarrow> string \<Rightarrow> page \<Rightarrow> ted_context" where
  "extract_context w u pg =
     (let ogTitle = attr_or (attr_of pg (MetaProperty ''og:title'') ''content'') [];
          ogDesc = attr_or (attr_of pg (MetaProperty ''og:description'') ''content'') [];
          h1 = js_trim (first_text pg (Tag ''h1''));
          pageTitle = js_trim (text_of pg (Tag ''title''));
          metaDesc = attr_or (attr_of pg (MetaName ''description'') ''content'') [];
          ld = fold (ld_step w) (each_text pg (ScriptType ''application/ld+json'')) ([], []);
          t = js_trim (or_str (fst ld) (or_str ogTitle (or_str h1 (or_str pageTitle []))));
          d = js_trim (or_str (snd ld) (or_str ogDesc (or_str metaDesc [])));
          x = join [CHR 0x0A]
                (filter (\<lambda>s. s \<noteq> [])
                   [if t \<noteq> [] then ''Title: '' @ t else [],
                    if d \<noteq> [] then ''Description: '' @ d else []])
      in \<lparr>url = u, title = t, description = d, extractedText = x, ok = True, reason = None\<rparr>)"

definition no_context :: "string \<Rightarrow> string \<Rightarrow> ted_context" where
  "no_context u r =
     \<lparr>url = u, title = [], description = [], extractedText = [], ok = False, reason = Some r\<rparr>"

text \<open>
  \<^verbatim>\<open>async function fetchTedEdContext(lessonUrl) {
    const url = String(lessonUrl || "").trim();
    if (!url || !isValidTedEdLessonUrl(url)) {
      return { url, title: "", description: "", extractedText: "", ok: false,
               reason: !url ? "missing_url" : "invalid_ted_ed_url" };
    }
    const controller = new AbortController();
    const t = setTimeout(() => controller.abort(), 12000);
    try {
      const resp = await fetch(url, { ..., signal: controller.signal });
      const html = await resp.text();
      const $ = cheerio.load(html);
      ...
      return { url, title, description, extractedText, ok: true };
    } catch (e) {
      return { url, title: "", description: "", extractedText: "", ok: false,
               reason: "fetch_failed" };
    } finally { clearTimeout(t); }
  }\<close>
  Its only caller passes a string, for which \<^verbatim>\<open>String(lessonUrl || "")\<close> is the string.
\<close>

definition fetchTedEdContext :: "world \<Rightarrow> string \<Rightarrow> ted_context \<times> effect list" where
  "fetchTedEdContext w lessonUrl =
     (let u = js_trim lessonUrl
      in if u = [] \<or> \<not> isValidTedEdLessonUrl w u
         then (no_context u (if u = [] then ''missing_url'' else ''invalid_ted_ed_url''), [])
         else (case and_then (fetch w u) (\<lambda>resp.
                    and_then (resp_text resp) (\<lambda>html.
                    and_then (cheerio_load w html) (\<lambda>pg. Inr (extract_context w u pg)))) of
                 Inl e \<Rightarrow> (no_context u ''fetch_failed'', [Fetched u])
               | Inr c \<Rightarrow> (c, [Fetched u])))"

record ted_meta =
  meta_title :: string
  meta_description :: string
  canonical :: string
  meta_keywords :: string

text \<open>
  \<^verbatim>\<open>async function fetchWithTimeout(url, ms = 8000) {
    const controller = new AbortController();
    const t = setTimeout(() => controller.abort(), ms);
    try { const res = await fetch(url, { signal: controller.signal, ... }); return res; }
    finally { clearTimeout(t); }
  }
  async function extractTedEdContext(tedUrl) {
    if (!tedUrl || !isAllowedTedEdUrl(tedUrl)) { return null; }
    const res = await fetchWithTimeout(tedUrl, 8000);
    if (!res.ok) return null;
    const html = await res.text();
    const $ = cheerio.load(html);
    const title = $("meta[property='og:title']").attr("content") ||
      $("meta[name='twitter:title']").attr("content") || $("title").text() || "";
    ...
    return { title: String(title || "").trim(), description: ..., canonical: ...,
             keywords: ... };
  }\<close>
  There is no \<^verbatim>\<open>catch\<close>: an exception of \<^verbatim>\<open>fetch\<close>, \<^verbatim>\<open>res.text\<close> or \<^verbatim>\<open>cheerio.load\<close>
  leaves the function, which is the result \<open>Inl\<close>.
\<close>

definition extract_meta :: "string \<Rightarrow> page \<Rightarrow> ted_meta" where
  "extract_meta tedUrl pg =
     (let t = attr_or (attr_of pg (MetaProperty ''og:title'') ''content'')
                (attr_or (attr_of pg (MetaName ''twitter:title'') ''content'')
                   (or_str (text_of pg (Tag ''title'')) []));
          d = attr_or (attr_of pg (MetaProperty ''og:description'') ''content'')
                (attr_or (attr_of pg (MetaName ''description'') ''content'')
                   (attr_or (attr_of pg (MetaName ''twitter:description'') ''content'') []));
          c = attr_or (attr_of pg (LinkRel ''canonical'') ''href'')
                (attr_or (attr_of pg (MetaProperty ''og:url'') ''content'') tedUrl);
          k = attr_or (attr_of pg (MetaName ''keywords'') ''content'') []
      in \<lparr>meta_title = js_trim t, meta_description = js_trim d, canonical = js_trim c,
          meta_keywords = js_trim k\<rparr>)"

definition extractTedEdContext ::
  "world \<Rightarrow> string \<Rightarrow> (js_error + ted_meta option) \<times> effect list" where
  "extractTedEdContext w tedUrl =
     (if tedUrl = [] \<or> \<not> isAllowedTedEdUrl w tedUrl then (Inr None, [])
      else (case fetch w tedUrl of
              Inl e \<Rightarrow> (Inl e, [Fetched tedUrl])
            | Inr res \<Rightarrow>
                if \<not> resp_ok res then (Inr None, [Fetched tedUrl])
                else (case and_then (resp_text res) (cheerio_load w) of
                        Inl e \<Rightarrow> (Inl e, [Fetched tedUrl])
                      | Inr pg \<Rightarrow> (Inr (Some (extract_meta tedUrl pg)), [Fetched tedUrl]))))"

section \<open>The endpoints that return JSON\<close>

text \<open>
  Every handler is wrapped in \<^verbatim>\<open>try { ... } catch (err) { ... status(500) ... }\<close>; the
  body of the 500 response carries a text of the exception.
\<close>

definition caught :: "js_error \<Rightarrow> response" where
  "caught e = Json_response 500 (error_body (message_of e))"

definition bad_json :: "string \<Rightarrow> string \<Rightarrow> response" where
  "bad_json m content = Json_response 502 (JObj [(''error'', JStr m), (''raw'', JStr content)])"

subsection \<open>\<^verbatim>\<open>POST /ai/writing-feedback\<close>\<close>

text \<open>
  \<^verbatim>\<open>const { text, level = "B2", stepName = "Writing" } = req.body || {};
  if (!text || typeof text !== "string") {
    return res.status(400).json({ error: "Missing or invalid 'text'." });
  }
  const system = `... Level: ${level}. ...`;
  const user = `Step: ${stepName} ... ${text} ...`;
  const completion = await openai.chat.completions.create({ ..., messages: [...] });
  const content = completion.choices?.[0]?.message?.content?.trim() || "";
  const json = parseJsonSafely(content);
  if (!json) {
    return res.status(502).json({ error: "Model did not return valid JSON.", raw: content });
  }
  return res.json(json);\<close>
\<close>

definition post_writing_feedback :: "world \<Rightarrow> jsval \<Rightarrow> response \<times> effect list" where
  "post_writing_feedback w req_body =
     (let body = js_or req_body (JObj []);
          text = get_opt body ''text'';
          level = dflt (get_opt body ''level'') (JStr ''B2'');
          stepName = dflt (get_opt body ''stepName'') (JStr ''Writing'')
      in if \<not> truthy text \<or> \<not> is_string text
         then (Json_response 400 (error_body ''Missing or invalid 'text'.''), [])
         else (case and_then (js_String level) (\<lambda>l.
                    and_then (js_String stepName) (\<lambda>st.
                    and_then (js_String text) (\<lambda>t.
                      Inr [Message ''system'' [Text l], Message ''user'' [Text st, Text t]]))) of
                 Inl e \<Rightarrow> (caught e, [])
               | Inr msgs \<Rightarrow>
                   (case chat_completions_create w msgs of
                      Inl e \<Rightarrow> (caught e, [Completed msgs])
                    | Inr c \<Rightarrow>
                        (let content = trimmed_content c;
                             json = parseJsonSafely w content
                         in if \<not> truthy json
                            then (bad_json ''Model did not return valid JSON.'' content,
                                  [Completed msgs])
                            else (Json_response 200 json, [Completed msgs])))))"

text \<open>
  The variant that asks the provider for schema-constrained output:
  \<^verbatim>\<open>try {
    const { text, level = "B2", stepName = "Writing" } = req.body;
    if (!text || typeof text !== "string") return res.status(400).json({ error: "Missing text" });
    const resp = await client.responses.create({ ..., input: [...], text: { format: ... } });
    res.json(JSON.parse(resp.output_text));
  } catch (e) { res.status(500).json({ error: String(e) }); }\<close>
\<close>

definition post_writing_feedback_json_schema :: "world \<Rightarrow> jsval \<Rightarrow> response \<times> effect list" where
  "post_writing_feedback_json_schema w req_body =
     (if req_body = JUndefined \<or> req_body = JNull then (caught TypeError, [])
      else
        (let text = get_opt req_body ''text'';
             level = dflt (get_opt req_body ''level'') (JStr ''B2'');
             stepName = dflt (get_opt req_body ''stepName'') (JStr ''Writing'')
         in if \<not> truthy text \<or> \<not> is_string text
            then (Json_response 400 (error_body ''Missing text''), [])
            else (case and_then (js_String level) (\<lambda>l.
                       and_then (js_String stepName) (\<lambda>st.
                       and_then (js_String text) (\<lambda>t.
                         Inr [Message ''system'' [Text l, Text st], Message ''user'' [Text t]]))) of
                    Inl e \<Rightarrow> (caught e, [])
                  | Inr msgs \<Rightarrow>
                      (case responses_create w msgs of
                         Inl e \<Rightarrow> (caught e, [Completed msgs])
                       | Inr output_text \<Rightarrow>
                           (case JSON_parse w output_text of
                              None \<Rightarrow> (caught SyntaxError, [Completed msgs])
                            | Some json \<Rightarrow> (Json_response 200 json, [Completed msgs]))))))"

subsection \<open>\<^verbatim>\<open>POST /ai/vocabulary\<close>\<close>

text \<open>
  The first version:
  \<^verbatim>\<open>const { words, level = "B2" } = req.body || {};
  if (!Array.isArray(words) || words.length === 0) {
    return res.status(400).json({ error: "Missing or invalid 'words' array." });
  }
  const system = `... Level: ${level}. ...`;
  const user = `Words: ${words.join(", ")} ...`;
  const completion = await openai.chat.completions.create(...);
  const content = completion.choices?.[0]?.message?.content?.trim() || "";
  const json = parseJsonSafely(content);
  if (!json || !Array.isArray(json)) {
    return res.status(502).json({ error: "Model did not return a valid JSON array.",
                                  raw: content });
  }
  return res.json(json);\<close>
\<close>

definition post_vocabulary_plain :: "world \<Rightarrow> jsval \<Rightarrow> response \<times> effect list" where
  "post_vocabulary_plain w req_body =
     (let body = js_or req_body (JObj []);
          words = get_opt body ''words'';
          level = dflt (get_opt body ''level'') (JStr ''B2'')
      in if \<not> isArray words \<or> length (elements words) = 0
         then (Json_response 400 (error_body ''Missing or invalid 'words' array.''), [])
         else (case and_then (js_String level) (\<lambda>l.
                    and_then (js_join '', '' (elements words)) (\<lambda>ws.
                      Inr [Message ''system'' [Text l], Message ''user'' [Text ws]])) of
                 Inl e \<Rightarrow> (caught e, [])
               | Inr msgs \<Rightarrow>
                   (case chat_completions_create w msgs of
                      Inl e \<Rightarrow> (caught e, [Completed msgs])
                    | Inr c \<Rightarrow>
                        (let content = trimmed_content c;
                             json = parseJsonSafely w content
                         in if \<not> truthy json \<or> \<not> isArray json
                            then (bad_json ''Model did not return a valid JSON array.'' content,
                                  [Completed msgs])
                            else (Json_response 200 json, [Completed msgs])))))"

text \<open>
  The version with native-language translations. The requested languages:
  \<^verbatim>\<open>let langs = [];
  if (Array.isArray(nativeLanguageCodes) && nativeLanguageCodes.length > 0) {
    langs = nativeLanguageCodes.map((c) => String(c || "").trim()).filter(Boolean);
  } else if (nativeLanguageCode && String(nativeLanguageCode).trim()) {
    langs = [String(nativeLanguageCode).trim()];
  }
  const seen = new Set();
  langs = langs.filter((c) => {
    const key = c.toLowerCase().replaceAll("_", "-");
    if (!key) return false;
    if (seen.has(key)) return false;
    seen.add(key);
    return true;
  });\<close>
\<close>

definition requested_langs :: "jsval \<Rightarrow> jsval \<Rightarrow> js_error + string list" where
  "requested_langs nativeLanguageCodes nativeLanguageCode =
     (if isArray nativeLanguageCodes \<and> length (elements nativeLanguageCodes) > 0
      then and_then (map_throwing clean_text (elements nativeLanguageCodes))
             (\<lambda>cs. Inr (filter (\<lambda>c. c \<noteq> []) cs))
      else if truthy nativeLanguageCode
      then and_then (js_String nativeLanguageCode)
             (\<lambda>s. Inr (if js_trim s \<noteq> [] then [js_trim s] else []))
      else Inr [])"

definition lang_key :: "string \<Rightarrow> string" where
  "lang_key c = map (\<lambda>x. if x = CHR ''_'' then CHR ''-'' else x) (toLowerCase c)"

fun unique_langs :: "string list \<Rightarrow> string list \<Rightarrow> string list" where
  "unique_langs seen [] = []"
| "unique_langs seen (c # cs) =
     (let key = lang_key c
      in if key = [] then unique_langs seen cs
         else if key \<in> set seen then unique_langs seen cs
         else c # unique_langs (key # seen) cs)"

text \<open>
  The own enumerable properties that \<^verbatim>\<open>{ ...obj }\<close> copies, and \<^verbatim>\<open>{ ...obj, k: v }\<close>: an
  array spreads its indices; a key already present keeps its place.
\<close>

definition own_props :: "jsval \<Rightarrow> (string \<times> jsval) list" where
  "own_props v =
     (case v of
        JObj kvs \<Rightarrow> kvs
      | JArr xs \<Rightarrow> zip (map digits [0 ..< length xs]) xs
      | _ \<Rightarrow> [])"

definition set_prop :: "(string \<times> jsval) list \<Rightarrow> string \<Rightarrow> jsval \<Rightarrow> (string \<times> jsval) list" where
  "set_prop kvs k v =
     (if k \<in> set (map fst kvs) then map (\<lambda>p. if fst p = k then (k, v) else p) kvs
      else kvs @ [(k, v)])"

text \<open>
  \<^verbatim>\<open>const normalized = json.map((it) => {
    const obj = typeof it === "object" && it ? it : {};
    const translations =
      obj.translations && typeof obj.translations === "object" ? obj.translations : {};
    return { ...obj, translations };
  });\<close>
\<close>

definition normalize_item :: "jsval \<Rightarrow> jsval" where
  "normalize_item it =
     (let obj = (if typeof_object it \<and> truthy it then it else JObj []);
          t = get_opt obj ''translations'';
          translations = (if truthy t \<and> typeof_object t then t else JObj [])
      in JObj (set_prop (own_props obj) ''translations'' translations))"

text \<open>
  \<^verbatim>\<open>const { words, level = "B2", nativeLanguageCode, nativeLanguageCodes } = req.body || {};
  if (!Array.isArray(words) || words.length === 0) { return res.status(400)... }
  const cleanWords = words.map((w) => String(w || "").trim()).filter(Boolean);
  if (cleanWords.length === 0) { return res.status(400)... }
  const lvl = normalizeLevel(level);
  ... langs ...
  const translationsRule = langs.length > 0 ? `... ${JSON.stringify(langs)} ...` : `...`;
  const system = `... ${lvl} ... ${translationsRule} ... ${lvl} ...`;
  const user = `Words: ${cleanWords.join(", ")} ...`;
  const completion = await openai.chat.completions.create(...);
  const content = completion.choices?.[0]?.message?.content?.trim() || "";
  const json = parseJsonSafely(content);
  if (!json || !Array.isArray(json)) { return res.status(502).json({ error: ..., raw: content }); }
  const normalized = json.map(...);
  return res.json(normalized);\<close>
\<close>

definition cleanWords :: "jsval \<Rightarrow> js_error + string list" where
  "cleanWords words =
     and_then (map_throwing clean_text (elements words)) (\<lambda>ws. Inr (filter (\<lambda>s. s \<noteq> []) ws))"

definition post_vocabulary :: "world \<Rightarrow> jsval \<Rightarrow> response \<times> effect list" where
  "post_vocabulary w req_body =
     (let body = js_or req_body (JObj []);
          words = get_opt body ''words'';
          level = dflt (get_opt body ''level'') (JStr ''B2'');
          nativeLanguageCode = get_opt body ''nativeLanguageCode'';
          nativeLanguageCodes = get_opt body ''nativeLanguageCodes''
      in if \<not> isArray words \<or> length (elements words) = 0
         then (Json_response 400 (error_body ''Missing or invalid 'words' array.''), [])
         else (case cleanWords words of
                 Inl e \<Rightarrow> (caught e, [])
               | Inr cws \<Rightarrow>
                   if length cws = 0
                   then (Json_response 400 (error_body ''Missing or invalid 'words' array.''), [])
                   else (case and_then (normalizeLevel level) (\<lambda>lvl.
                              and_then (requested_langs nativeLanguageCodes nativeLanguageCode)
                                (\<lambda>ls. let langs = unique_langs [] ls
                                  in Inr [Message ''system''
                                            ([Text lvl] @
                                             (if length langs > 0 then [Json (JArr (map JStr langs))]
                                              else []) @
                                             [Text lvl]),
                                          Message ''user'' [Text (join '', '' cws)]])) of
                           Inl e \<Rightarrow> (caught e, [])
                         | Inr msgs \<Rightarrow>
                             (case chat_completions_create w msgs of
                                Inl e \<Rightarrow> (caught e, [Completed msgs])
                              | Inr c \<Rightarrow>
                                  (let content = trimmed_content c;
                                       json = parseJsonSafely w content
                                   in if \<not> truthy json \<or> \<not> isArray json
                                      then (bad_json ''Model did not return a valid JSON array.''
                                              content, [Completed msgs])
                                      else (Json_response 200
                                              (JArr (map normalize_item (elements json))),
                                            [Completed msgs]))))))"

subsection \<open>\<^verbatim>\<open>POST /ai/sentences-feedback\<close>\<close>

text \<open>
  \<^verbatim>\<open>const { items, level } = req.body || {};
  if (!Array.isArray(items) || items.length === 0) {
    return res.status(400).json({ error: "Missing 'items' (array)." });
  }
  const cleanItems = items
    .map((it) => ({
      word: String(it.word || "").trim(),
      sentences: Array.isArray(it.sentences)
        ? it.sentences.map((s) => String(s || "").trim())
        : [],
    }))
    .filter((it) => it.word && it.sentences.length === 2 &&
                    it.sentences.every((s) => s.length > 0));
  if (cleanItems.length === 0) {
    return res.status(400).json({ error: "Each item must have a word and 2 sentences." });
  }
  const lvl = String(level || "B2");
  const system = `... (level ${lvl}) ...`;
  const user = JSON.stringify({ items: cleanItems }, null, 2);
  const completion = await openai.chat.completions.create(...);
  const content = completion.choices?.[0]?.message?.content || "";
  const json = parseJsonSafely(content);
  if (!json) {
    return res.status(502).json({ error: "Model did not return valid JSON.", raw: content });
  }
  res.json(json);\<close>
\<close>

record clean_item =
  word :: string
  sentences :: "string list"

definition clean_one :: "jsval \<Rightarrow> js_error + clean_item" where
  "clean_one it =
     and_then (get_prop it ''word'') (\<lambda>wd.
     and_then (clean_text wd) (\<lambda>cw.
     and_then (get_prop it ''sentences'') (\<lambda>ss.
     and_then (if isArray ss then map_throwing clean_text (elements ss) else Inr []) (\<lambda>cs.
       Inr \<lparr>word = cw, sentences = cs\<rparr>))))"

definition kept :: "clean_item \<Rightarrow> bool" where
  "kept it = (word it \<noteq> [] \<and> length (sentences it) = 2 \<and>
              list_all (\<lambda>s. length s > 0) (sentences it))"

definition cleanItems :: "jsval \<Rightarrow> js_error + clean_item list" where
  "cleanItems items =
     and_then (map_throwing clean_one (elements items)) (\<lambda>its. Inr (filter kept its))"

definition item_json :: "clean_item \<Rightarrow> jsval" where
  "item_json it = JObj [(''word'', JStr (word it)), (''sentences'', JArr (map JStr (sentences it)))]"

definition post_sentences_feedback :: "world \<Rightarrow> jsval \<Rightarrow> response \<times> effect list" where
  "post_sentences_feedback w req_body =
     (let body = js_or req_body (JObj []);
          items = get_opt body ''items'';
          level = get_opt body ''level''
      in if \<not> isArray items \<or> length (elements items) = 0
         then (Json_response 400 (error_body ''Missing 'items' (array).''), [])
         else (case cleanItems items of
                 Inl e \<Rightarrow> (caught e, [])
               | Inr cis \<Rightarrow>
                   if length cis = 0
                   then (Json_response 400
                           (error_body ''Each item must have a word and 2 sentences.''), [])
                   else (case js_String (js_or level (JStr ''B2'')) of
                           Inl e \<Rightarrow> (caught e, [])
                         | Inr lvl \<Rightarrow>
                             (let msgs = [Message ''system'' [Text lvl],
                                          Message ''user''
                                            [Json (JObj [(''items'', JArr (map item_json cis))])]]
                              in case chat_completions_create w msgs of
                                   Inl e \<Rightarrow> (caught e, [Completed msgs])
                                 | Inr c \<Rightarrow>
                                     (let content = plain_content c;
                                          json = parseJsonSafely w content
                                      in if \<not> truthy json
                                         then (bad_json ''Model did not return valid JSON.''
                                                 content, [Completed msgs])
                                         else (Json_response 200 json, [Completed msgs]))))))"

subsection \<open>\<^verbatim>\<open>POST /ai/resume-score\<close>\<close>

text \<open>
  The first version knows the three named fields only:
  \<^verbatim>\<open>const { writing1 = "", writing2 = "", writing100 = "", newWords = [],
          sentencesByWord = {}, level = "B2" } = req.body || {};
  const system = `... Level: ${level}. ...`;
  const user = `... ${writing1} ... ${writing2} ... ${writing100}
    ... ${JSON.stringify(newWords)} ... ${JSON.stringify(sentencesByWord)} ...`;
  const completion = await openai.chat.completions.create(...);
  const content = completion.choices?.[0]?.message?.content?.trim() || "";
  const json = parseJsonSafely(content);
  if (!json) { return res.status(502).json({ error: ..., raw: content }); }
  return res.json(json);\<close>
\<close>

definition post_resume_score_legacy :: "world \<Rightarrow> jsval \<Rightarrow> response \<times> effect list" where
  "post_resume_score_legacy w req_body =
     (let body = js_or req_body (JObj []);
          writing1 = dflt (get_opt body ''writing1'') (JStr []);
          writing2 = dflt (get_opt body ''writing2'') (JStr []);
          writing100 = dflt (get_opt body ''writing100'') (JStr []);
          newWords = dflt (get_opt body ''newWords'') (JArr []);
          sentencesByWord = dflt (get_opt body ''sentencesByWord'') (JObj []);
          level = dflt (get_opt body ''level'') (JStr ''B2'')
      in case and_then (js_String level) (\<lambda>l.
                and_then (js_String writing1) (\<lambda>w1.
                and_then (js_String writing2) (\<lambda>w2.
                and_then (js_String writing100) (\<lambda>w100.
                  Inr [Message ''system'' [Text l],
                       Message ''user''
                         [Text w1, Text w2, Text w100, Json newWords, Json sentencesByWord]])))) of
           Inl e \<Rightarrow> (caught e, [])
         | Inr msgs \<Rightarrow>
             (case chat_completions_create w msgs of
                Inl e \<Rightarrow> (caught e, [Completed msgs])
              | Inr c \<Rightarrow>
                  (let content = trimmed_content c;
                       json = parseJsonSafely w content
                   in if \<not> truthy json
                      then (bad_json ''Model did not return valid JSON.'' content,
                            [Completed msgs])
                      else (Json_response 200 json, [Completed msgs]))))"

text \<open>
  The version that accepts both payload formats:
  \<^verbatim>\<open>const body = req.body || {};
  const lvl = normalizeLevel(body.level || "B2");
  const drafts = Array.isArray(body.drafts) ? body.drafts : null;
  const writing1 = String(body.writing1 ?? "");
  const writing2 = String(body.writing2 ?? "");
  const writing100 = String(body.writing100 ?? "");
  const finalDrafts = drafts
    ? drafts.map((d) => String(d || "")).filter((t) => t.trim().length > 0)
    : [writing1, writing2, writing100].filter((t) => t.trim().length > 0);
  const newWords = Array.isArray(body.newWords) ? body.newWords : [];
  const sentencesByWord = body.sentencesByWord && typeof body.sentencesByWord === "object"
    ? body.sentencesByWord : {};
  const system = `... Level: ${lvl}. ...`;
  const user = `... Drafts: ${JSON.stringify(finalDrafts)}
    ... ${JSON.stringify(newWords)} ... ${JSON.stringify(sentencesByWord)} ...`;\<close>
  The three named fields are converted before the drafts are looked at, so an
  exception of theirs is raised also when \<^verbatim>\<open>drafts\<close> is given.
\<close>

definition finalDrafts :: "jsval \<Rightarrow> js_error + string list" where
  "finalDrafts body =
     and_then (js_String (js_nullish (get_opt body ''writing1'') (JStr []))) (\<lambda>writing1.
     and_then (js_String (js_nullish (get_opt body ''writing2'') (JStr []))) (\<lambda>writing2.
     and_then (js_String (js_nullish (get_opt body ''writing100'') (JStr []))) (\<lambda>writing100.
       if isArray (get_opt body ''drafts'')
       then and_then (map_throwing (\<lambda>d. js_String (js_or d (JStr [])))
                        (elements (get_opt body ''drafts'')))
              (\<lambda>ds. Inr (filter (\<lambda>t. length (js_trim t) > 0) ds))
       else Inr (filter (\<lambda>t. length (js_trim t) > 0) [writing1, writing2, writing100]))))"

definition post_resume_score :: "world \<Rightarrow> jsval \<Rightarrow> response \<times> effect list" where
  "post_resume_score w req_body =
     (let body = js_or req_body (JObj []);
          newWords = (if isArray (get_opt body ''newWords'') then get_opt body ''newWords''
                      else JArr []);
          sentencesByWord =
            (if truthy (get_opt body ''sentencesByWord'') \<and>
                typeof_object (get_opt body ''sentencesByWord'')
             then get_opt body ''sentencesByWord'' else JObj [])
      in case and_then (normalizeLevel (js_or (get_opt body ''level'') (JStr ''B2''))) (\<lambda>lvl.
                and_then (finalDrafts body) (\<lambda>fd.
                  Inr [Message ''system'' [Text lvl],
                       Message ''user''
                         [Json (JArr (map JStr fd)), Json newWords, Json sentencesByWord]])) of
           Inl e \<Rightarrow> (caught e, [])
         | Inr msgs \<Rightarrow>
             (case chat_completions_create w msgs of
                Inl e \<Rightarrow> (caught e, [Completed msgs])
              | Inr c \<Rightarrow>
                  (let content = trimmed_content c;
                       json = parseJsonSafely w content
                   in if \<not> truthy json
                      then (bad_json ''Model did not return valid JSON.'' content,
                            [Completed msgs])
                      else (Json_response 200 json, [Completed msgs]))))"

subsection \<open>The schema-constrained versions of vocabulary and resume-score\<close>

text \<open>
  \<^verbatim>\<open>try {
    const { words = [], level = "B2" } = req.body;
    if (!Array.isArray(words) || words.length === 0)
      return res.status(400).json({ error: "Missing words" });
    const resp = await client.responses.create({ ..., input: [
      { role: "system", content: `... Level: ${level}.` },
      { role: "user", content: `Words:\n${words.join(", ")}` } ], ... });
    res.json(JSON.parse(resp.output_text));
  } catch (e) { res.status(500).json({ error: String(e) }); }\<close>
\<close>

definition post_vocabulary_json_schema :: "world \<Rightarrow> jsval \<Rightarrow> response \<times> effect list" where
  "post_vocabulary_json_schema w req_body =
     (if req_body = JUndefined \<or> req_body = JNull then (caught TypeError, [])
      else
        (let words = dflt (get_opt req_body ''words'') (JArr []);
             level = dflt (get_opt req_body ''level'') (JStr ''B2'')
         in if \<not> isArray words \<or> length (elements words) = 0
            then (Json_response 400 (error_body ''Missing words''), [])
            else (case and_then (js_String level) (\<lambda>l.
                       and_then (js_join '', '' (elements words)) (\<lambda>ws.
                         Inr [Message ''system'' [Text l], Message ''user'' [Text ws]])) of
                    Inl e \<Rightarrow> (caught e, [])
                  | Inr msgs \<Rightarrow>
                      (case responses_create w msgs of
                         Inl e \<Rightarrow> (caught e, [Completed msgs])
                       | Inr output_text \<Rightarrow>
                           (case JSON_parse w output_text of
                              None \<Rightarrow> (caught SyntaxError, [Completed msgs])
                            | Some json \<Rightarrow> (Json_response 200 json, [Completed msgs]))))))"

text \<open>
  \<^verbatim>\<open>try {
    const { writing1="", writing2="", writing100="", newWords=[], sentencesByWord={},
            level="B2" } = req.body;
    const resp = await client.responses.create({ ..., input: [
      { role: "system", content: `... CEFR ${level}.` },
      { role: "user", content: `Draft 1:\n${writing1}\n\nDraft 2:\n${writing2}\n\n
         100-word paragraph:\n${writing100}\n\nNew words:\n${newWords.join(", ")}\n\n
         Sentences by word:\n${JSON.stringify(sentencesByWord, null, 2)}` } ], ... });
    res.json(JSON.parse(resp.output_text));
  } catch (e) { res.status(500).json({ error: String(e) }); }\<close>
  \<^verbatim>\<open>newWords.join\<close> is a function only when \<^verbatim>\<open>newWords\<close> is an array.
\<close>

definition post_resume_score_json_schema :: "world \<Rightarrow> jsval \<Rightarrow> response \<times> effect list" where
  "post_resume_score_json_schema w req_body =
     (if req_body = JUndefined \<or> req_body = JNull then (caught TypeError, [])
      else
        (let writing1 = dflt (get_opt req_body ''writing1'') (JStr []);
             writing2 = dflt (get_opt req_body ''writing2'') (JStr []);
             writing100 = dflt (get_opt req_body ''writing100'') (JStr []);
             newWords = dflt (get_opt req_body ''newWords'') (JArr []);
             sentencesByWord = dflt (get_opt req_body ''sentencesByWord'') (JObj []);
             level = dflt (get_opt req_body ''level'') (JStr ''B2'')
         in case and_then (js_String level) (\<lambda>l.
                   and_then (js_String writing1) (\<lambda>w1.
                   and_then (js_String writing2) (\<lambda>w2.
                   and_then (js_String writing100) (\<lambda>w100.
                   and_then (if isArray newWords then js_join '', '' (elements newWords)
                             else Inl TypeError) (\<lambda>nw.
                     Inr [Message ''system'' [Text l],
                          Message ''user''
                            [Text w1, Text w2, Text w100, Text nw, Json sentencesByWord]]))))) of
              Inl e \<Rightarrow> (caught e, [])
            | Inr msgs \<Rightarrow>
                (case responses_create w msgs of
                   Inl e \<Rightarrow> (caught e, [Completed msgs])
                 | Inr output_text \<Rightarrow>
                     (case JSON_parse w output_text of
                        None \<Rightarrow> (caught SyntaxError, [Completed msgs])
                      | Some json \<Rightarrow> (Json_response 200 json, [Completed msgs])))))"

section \<open>\<^verbatim>\<open>POST /ai/conversation\<close>\<close>


definition history_strict :: "jsval \<Rightarrow> js_error + message" where
  "history_strict m =
     and_then (get_prop m ''role'') (\<lambda>r.
     and_then (js_String (js_or r (JStr []))) (\<lambda>rs.
     and_then (get_prop m ''content'') (\<lambda>c.
     and_then (js_String (js_or c (JStr []))) (\<lambda>cs.
       Inr (Message (if toLowerCase rs = ''assistant'' then ''assistant'' else ''user'')
              [Text cs])))))"


text \<open>\<^verbatim>\<open>String(topicResume || "").trim() || "No summary provided."\<close>\<close>

definition fallback_summary :: "jsval \<Rightarrow> js_error + string" where
  "fallback_summary topicResume =
     and_then (clean_text topicResume) (\<lambda>s. Inr (or_str s ''No summary provided.''))"

text \<open>The \<^verbatim>\<open>catch\<close> of the two versions: \<^verbatim>\<open>res.status(500).send(err?.message || "Conversation error")\<close>
  and \<^verbatim>\<open>res.status(500).json({ error: err?.message || "Conversation error" })\<close>.\<close>

definition caught_send :: "js_error \<Rightarrow> response" where
  "caught_send e = Text_response 500 (or_str (message_of e) ''Conversation error'')"


subsection \<open>The first version\<close>



subsection \<open>The version with level rules\<close>



subsection \<open>The version that calls \<^verbatim>\<open>extractTedEdContext\<close>\<close>

text \<open>
  \<^verbatim>\<open>const safeVocab = Array.isArray(vocabulary)
    ? vocabulary.map((w) => String(w || "").trim()).filter(Boolean).slice(0, 30)
    : [];\<close>
\<close>

definition safeVocab :: "jsval \<Rightarrow> js_error + string list" where
  "safeVocab vocabulary =
     (if isArray vocabulary
      then and_then (map_throwing clean_text (elements vocabulary))
             (\<lambda>ws. Inr (take 30 (filter (\<lambda>s. s \<noteq> []) ws)))
      else Inr [])"

text \<open>
  \<^verbatim>\<open>const { level, topicResume, vocabulary, messages, tedUrl } = req.body || {};
  if (!level || !Array.isArray(messages)) {
    return res.status(400).json({ error: "Missing required fields: level, messages" });
  }
  const lvl = normalizeLevel(level);
  const spec = levelSpec(lvl);
  const tedContext = tedUrl ? await extractTedEdContext(String(tedUrl).trim()) : null;
  const safeVocab = ...;
  const systemPrompt = `... ${lvl} ... ${spec} ...`;
  const contextPrompt = `... ${ tedContext
      ? `Title: ${tedContext.title || "Unknown"}
         Description: ${tedContext.description || "No description available"}
         URL: ${tedContext.canonical || tedUrl || ""}`
      : `No TED-Ed context fetched (missing/invalid tedUrl or fetch failed).` }
    ... ${String(topicResume || "").trim() || "No summary provided."}
    ... ${safeVocab.join(", ")} ...`;
  const chatMessages = [ { role: "system", content: systemPrompt },
    { role: "user", content: contextPrompt }, ...messages.map(...) ];
  const completion = await openai.chat.completions.create({ ..., messages: chatMessages });
  const reply = completion.choices?.[0]?.message?.content?.trim() || "";
  if (!reply) { return res.status(502).json({ error: "Empty reply from model" }); }
  return res.json({ reply, usedTedUrl: Boolean(tedContext),
                    tedTitle: tedContext?.title || null });\<close>
  The style text \<^verbatim>\<open>levelSpec(lvl)\<close> is fixed by \<open>lvl\<close> and is left out.
\<close>

definition context_parts :: "ted_meta option \<Rightarrow> string \<Rightarrow> part list" where
  "context_parts tedContext tedUrl =
     (case tedContext of
        None \<Rightarrow> [Text ''No TED-Ed context fetched (missing/invalid tedUrl or fetch failed).'']
      | Some c \<Rightarrow>
          [Text (or_str (meta_title c) ''Unknown''),
           Text (or_str (meta_description c) ''No description available''),
           Text (or_str (canonical c) tedUrl)])"

definition post_conversation_extract :: "world \<Rightarrow> jsval \<Rightarrow> response \<times> effect list" where
  "post_conversation_extract w req_body =
     (let body = js_or req_body (JObj []);
          level = get_opt body ''level'';
          topicResume = get_opt body ''topicResume'';
          vocabulary = get_opt body ''vocabulary'';
          messages = get_opt body ''messages'';
          tedUrl = get_opt body ''tedUrl''
      in if \<not> truthy level \<or> \<not> isArray messages
         then (Json_response 400 (error_body ''Missing required fields: level, messages''), [])
         else (case normalizeLevel level of
                 Inl e \<Rightarrow> (caught_send e, [])
               | Inr lvl \<Rightarrow>
                   (case (if truthy tedUrl
                          then (case js_String tedUrl of
                                  Inl e \<Rightarrow> (Inl e, [])
                                | Inr s \<Rightarrow>
                                    (case extractTedEdContext w (js_trim s) of
                                       (Inl e, effs) \<Rightarrow> (Inl e, effs)
                                     | (Inr c, effs) \<Rightarrow> (Inr (c, s), effs)))
                          else (Inr (None, []), [])) of
                      (Inl e, effs) \<Rightarrow> (caught_send e, effs)
                    | (Inr (tedContext, tedUrl_text), effs) \<Rightarrow>
                        (case and_then (safeVocab vocabulary) (\<lambda>sv.
                                 and_then (fallback_summary topicResume) (\<lambda>summary.
                                 and_then (map_throwing history_strict (elements messages))
                                   (\<lambda>history.
                                      Inr ([Message ''system'' [Text lvl],
                                            Message ''user''
                                              (context_parts tedContext tedUrl_text @
                                               [Text summary, Text (join '', '' sv)])]
                                           @ history)))) of
                           Inl e \<Rightarrow> (caught_send e, effs)
                         | Inr chatMessages \<Rightarrow>
                             (case chat_completions_create w chatMessages of
                                Inl e \<Rightarrow> (caught_send e, effs @ [Completed chatMessages])
                              | Inr c \<Rightarrow>
                                  (let reply = trimmed_content c
                                   in if reply = []
                                      then (Json_response 502
                                              (error_body ''Empty reply from model''),
                                            effs @ [Completed chatMessages])
                                      else (Json_response 200
                                              (JObj [(''reply'', JStr reply),
                                                     (''usedTedUrl'', JBool (tedContext \<noteq> None)),
                                                     (''tedTitle'',
                                                      (case tedContext of
                                                         None \<Rightarrow> JNull
                                                       | Some t \<Rightarrow>
                                                           if meta_title t = [] then JNull
                                                           else JStr (meta_title t)))]),
                                            effs @ [Completed chatMessages])))))))"

subsection \<open>The version that calls \<^verbatim>\<open>fetchTedEdContext\<close>\<close>


fun unique_from :: "string list \<Rightarrow> string list \<Rightarrow> string list" where
  "unique_from seen [] = []"
| "unique_from seen (x # xs) =
     (let k = toLowerCase x
      in if k \<in> set seen then unique_from seen xs else x # unique_from (k # seen) xs)"




section \<open>A world for the examples\<close>

text \<open>
  The examples run the handlers in a small world: \<^verbatim>\<open>JSON.parse\<close> and \<^verbatim>\<open>new URL\<close> are
  given by their values at the texts the examples use (a text outside the tables is one
  that the parser rejects, such as \<^verbatim>\<open>not json\<close>), the network is down, and the completion
  service replies the same text to every request. The theorems hold of every world.
\<close>

definition parse_table :: "(string \<times> jsval) list" where
  "parse_table =
     [(''null'', JNull), (''false'', JBool False), (''true'', JBool True), (''0'', JNum 0),
      ([CHR 0x22, CHR 0x22], JStr []), (''[]'', JArr []), (''{}'', JObj []),
      (''[{}]'', JArr [JObj []]), ('' null'', JNull)]"

definition url_table :: "(string \<times> location) list" where
  "url_table =
     [(''https://evil.example.com/x'',
       \<lparr>protocol = ''https:'', hostname = ''evil.example.com'', pathname = ''/x''\<rparr>),
      (''http://ed.ted.com/lessons/x'',
       \<lparr>protocol = ''http:'', hostname = ''ed.ted.com'', pathname = ''/lessons/x''\<rparr>),
      (''https://ed.ted.com/lessons/x'',
       \<lparr>protocol = ''https:'', hostname = ''ed.ted.com'', pathname = ''/lessons/x''\<rparr>)]"

definition blank_page :: page where
  "blank_page = \<lparr>attr_of = (\<lambda>sel a. None), text_of = (\<lambda>sel. []), first_text = (\<lambda>sel. []),
                 each_text = (\<lambda>sel. [])\<rparr>"

definition example_world :: "string \<Rightarrow> world" where
  "example_world reply =
     \<lparr>JSON_parse = map_of parse_table,
      new_URL = map_of url_table,
      fetch = (\<lambda>u. Inl (NetworkError ''fetch failed'')),
      cheerio_load = (\<lambda>html. Inr blank_page),
      chat_completions_create = (\<lambda>msgs. Inr (Some reply)),
      responses_create = (\<lambda>msgs. Inr reply)\<rparr>"

section \<open>Notions used in the statements\<close>

text \<open>
  A URL text is off the allow-list when it does not parse, or its scheme is not https,
  or its host is not the TED-Ed host.
\<close>

definition off_list :: "world \<Rightarrow> string \<Rightarrow> bool" where
  "off_list w s =
     (case new_URL w s of
        None \<Rightarrow> True
      | Some l \<Rightarrow> protocol l \<noteq> ''https:'' \<or> hostname l \<noteq> ''ed.ted.com'')"

text \<open>
  The endpoints that read the reply of the completion service as JSON through
  \<open>parseJsonSafely\<close>, each with the text it parses: the trimmed content, or the
  content as it is.
\<close>

definition json_endpoints ::
  "((world \<Rightarrow> jsval \<Rightarrow> response \<times> effect list) \<times> (string option \<Rightarrow> string)) list" where
  "json_endpoints =
     [(post_writing_feedback, trimmed_content),
      (post_vocabulary_plain, trimmed_content),
      (post_vocabulary, trimmed_content),
      (post_sentences_feedback, plain_content),
      (post_resume_score_legacy, trimmed_content),
      (post_resume_score, trimmed_content)]"

definition has_translations :: "jsval \<Rightarrow> bool" where
  "has_translations v =
     (case v of JObj kvs \<Rightarrow> ''translations'' \<in> set (map fst kvs) | _ \<Rightarrow> False)"

text \<open>
  A well-typed item of a sentences request, a word and its sentences, as JSON; the
  item is valid when the word is not blank, there are exactly two sentences and none
  is blank; a valid item is cleaned by trimming its word and its sentences.
\<close>

definition blank :: "string \<Rightarrow> bool" where
  "blank s = (js_trim s = [])"

definition typed_item :: "string \<times> string list \<Rightarrow> jsval" where
  "typed_item p = JObj [(''word'', JStr (fst p)), (''sentences'', JArr (map JStr (snd p)))]"

definition valid_pair :: "string \<times> string list \<Rightarrow> bool" where
  "valid_pair p = (\<not> blank (fst p) \<and> length (snd p) = 2 \<and> list_all (\<lambda>s. \<not> blank s) (snd p))"

definition clean_pair :: "string \<times> string list \<Rightarrow> clean_item" where
  "clean_pair p = \<lparr>word = js_trim (fst p), sentences = map js_trim (snd p)\<rparr>"

text \<open>
  How an endpoint of \<open>json_endpoints\<close> judges the text it parses: a falsy parse result
  is answered by the 502 response carrying that text, and only a truthy one by 200.
\<close>

definition reply_judged :: "world \<Rightarrow> string \<Rightarrow> response \<Rightarrow> bool" where
  "reply_judged w content r =
     ((\<not> truthy (parseJsonSafely w content) \<longrightarrow> (\<exists>m. r = bad_json m content)) \<and>
      (status r = 200 \<longrightarrow> truthy (parseJsonSafely w content)))"



text \<open>
  A well-formed request to each endpoint of \<open>json_endpoints\<close>, built from a text \<open>t\<close>,
  with the text the endpoint parses, the message of its 502 response, and the messages
  it is to send to the completion service for that request.
\<close>

definition sample_calls ::
  "string \<Rightarrow>
   ((world \<Rightarrow> jsval \<Rightarrow> response \<times> effect list) \<times> (string option \<Rightarrow> string) \<times> string \<times>
    jsval \<times> message list) list" where
  "sample_calls t =
     [(post_writing_feedback, trimmed_content, ''Model did not return valid JSON.'',
       JObj [(''text'', JStr t)],
       [Message ''system'' [Text ''B2''], Message ''user'' [Text ''Writing'', Text t]]),
      (post_vocabulary_plain, trimmed_content, ''Model did not return a valid JSON array.'',
       JObj [(''words'', JArr [JStr t])],
       [Message ''system'' [Text ''B2''], Message ''user'' [Text t]]),
      (post_vocabulary, trimmed_content, ''Model did not return a valid JSON array.'',
       JObj [(''words'', JArr [JStr t])],
       [Message ''system'' [Text ''B2'', Text ''B2''], Message ''user'' [Text (js_trim t)]]),
      (post_sentences_feedback, plain_content, ''Model did not return valid JSON.'',
       JObj [(''items'', JArr [typed_item (t, [t, t])])],
       [Message ''system'' [Text ''B2''],
        Message ''user'' [Json (JObj [(''items'', JArr [item_json (clean_pair (t, [t, t]))])])]]),
      (post_resume_score_legacy, trimmed_content, ''Model did not return valid JSON.'',
       JObj [(''writing1'', JStr t)],
       [Message ''system'' [Text ''B2''],
        Message ''user'' [Text t, Text [], Text [], Json (JArr []), Json (JObj [])]]),
      (post_resume_score, trimmed_content, ''Model did not return valid JSON.'',
       JObj [(''drafts'', JArr [JStr t])],
       [Message ''system'' [Text ''B2''],
        Message ''user'' [Json (JArr [JStr t]), Json (JArr []), Json (JObj [])]])]"

text \<open>The same for the schema-constrained versions, which have no 502 response.\<close>

definition schema_calls ::
  "string \<Rightarrow> ((world \<Rightarrow> jsval \<Rightarrow> response \<times> effect list) \<times> jsval \<times> message list) list" where
  "schema_calls t =
     [(post_writing_feedback_json_schema, JObj [(''text'', JStr t)],
       [Message ''system'' [Text ''B2'', Text ''Writing''], Message ''user'' [Text t]]),
      (post_vocabulary_json_schema, JObj [(''words'', JArr [JStr t])],
       [Message ''system'' [Text ''B2''], Message ''user'' [Text t]]),
      (post_resume_score_json_schema, JObj [(''writing1'', JStr t)],
       [Message ''system'' [Text ''B2''],
        Message ''user'' [Text t, Text [], Text [], Text [], Json (JObj [])]])]"

text \<open>
  A conversation request with a level, no messages yet, and a vocabulary of strings.
\<close>

definition vocabulary_request :: "string \<Rightarrow> string list \<Rightarrow> jsval" where
  "vocabulary_request l ws =
     JObj [(''level'', JStr l), (''messages'', JArr []), (''vocabulary'', JArr (map JStr ws))]"

section \<open>Properties\<close>

subsection \<open>Case conversion and trimming\<close>

lemma is_space_upper_char: "is_space (upper_char c) = is_space c"
  by (auto simp: is_space_def upper_char_def lower_letters_def upper_letters_def split: if_splits)

lemma js_trim_toUpperCase: "js_trim (toUpperCase s) = toUpperCase (js_trim s)"
proof -
  have comp: "is_space \<circ> upper_char = is_space"
    by (rule ext) (simp add: is_space_upper_char)
  show ?thesis
    by (simp add: js_trim_def toUpperCase_def dropWhile_map rev_map comp)
qed

lemma upper_char_cases:
  "upper_char c = CHR ''A'' \<longleftrightarrow> c = CHR ''a'' \<or> c = CHR ''A''"
  "upper_char c = CHR ''B'' \<longleftrightarrow> c = CHR ''b'' \<or> c = CHR ''B''"
  "upper_char c = CHR ''C'' \<longleftrightarrow> c = CHR ''c'' \<or> c = CHR ''C''"
  "upper_char c = CHR ''1'' \<longleftrightarrow> c = CHR ''1''"
  "upper_char c = CHR ''2'' \<longleftrightarrow> c = CHR ''2''"
  by (auto simp: upper_char_def lower_letters_def upper_letters_def split: if_splits)

lemma lower_char_cases:
  "lower_char c = CHR ''a'' \<longleftrightarrow> c = CHR ''a'' \<or> c = CHR ''A''"
  "lower_char c = CHR ''b'' \<longleftrightarrow> c = CHR ''b'' \<or> c = CHR ''B''"
  "lower_char c = CHR ''c'' \<longleftrightarrow> c = CHR ''c'' \<or> c = CHR ''C''"
  "lower_char c = CHR ''1'' \<longleftrightarrow> c = CHR ''1''"
  "lower_char c = CHR ''2'' \<longleftrightarrow> c = CHR ''2''"
  by (auto simp: lower_char_def lower_letters_def upper_letters_def split: if_splits)

lemma map_eq_two: "map f s = [a, b] \<longleftrightarrow> (\<exists>x y. s = [x, y] \<and> f x = a \<and> f y = b)"
  by (cases s; cases "tl s") auto

lemma allowed_up_to_case:
  "toUpperCase t \<in> set allowed \<longleftrightarrow>
   toLowerCase t \<in> {''a1'', ''a2'', ''b1'', ''b2'', ''c1''}"
  by (auto simp: allowed_def toUpperCase_def toLowerCase_def map_eq_two
      upper_char_cases lower_char_cases)

subsection \<open>The level normalizer\<close>

text \<open>
  C4. \<open>normalizeLevel\<close> returns for every string, and for a missing level: it never
  raises. The result is the trimmed, uppercased input when the trimmed input is one of
  a1, a2, b1, b2, c1 up to case, and B2 otherwise; so it is always one of the five tags
  A1, A2, B1, B2, C1. Whatever value it is given, a result it returns is one of the
  five tags.
\<close>

theorem normalizeLevel_five_tags:
  "normalizeLevel JUndefined = Inr ''B2'' \<and>
   normalizeLevel (JStr s) =
     Inr (if toLowerCase (js_trim s) \<in> {''a1'', ''a2'', ''b1'', ''b2'', ''c1''}
          then toUpperCase (js_trim s) else ''B2'') \<and>
   (\<exists>t \<in> {''A1'', ''A2'', ''B1'', ''B2'', ''C1''}. normalizeLevel (JStr s) = Inr t) \<and>
   (\<forall>t. normalizeLevel v = Inr t \<longrightarrow> t \<in> {''A1'', ''A2'', ''B1'', ''B2'', ''C1''})"
proof -
  have missing: "normalizeLevel JUndefined = Inr ''B2''"
    by (simp add: normalizeLevel_def js_or_def toUpperCase_def upper_char_def js_trim_def
        is_space_def allowed_def lower_letters_def upper_letters_def)
  have str: "js_String (js_or (JStr s) (JStr ''B2'')) = Inr (if s = [] then ''B2'' else s)"
    by (simp add: js_or_def)
  have empty: "js_trim (toUpperCase ''B2'') = ''B2''" "js_trim (toUpperCase []) = []"
    by (simp_all add: toUpperCase_def upper_char_def js_trim_def is_space_def
        lower_letters_def upper_letters_def)
  have b2: "''B2'' \<in> set allowed" "[] \<notin> set allowed"
    by (simp_all add: allowed_def)
  have val: "normalizeLevel (JStr s) =
      Inr (if js_trim (toUpperCase s) \<in> set allowed then js_trim (toUpperCase s) else ''B2'')"
  proof (cases "s = []")
    case True
    with str have "js_String (js_or (JStr s) (JStr ''B2'')) = Inr ''B2''" by simp
    then show ?thesis using True by (simp add: normalizeLevel_def empty b2 Let_def)
  next
    case False
    with str have "js_String (js_or (JStr s) (JStr ''B2'')) = Inr s" by simp
    then show ?thesis by (simp add: normalizeLevel_def Let_def)
  qed
  have char: "normalizeLevel (JStr s) =
     Inr (if toLowerCase (js_trim s) \<in> {''a1'', ''a2'', ''b1'', ''b2'', ''c1''}
          then toUpperCase (js_trim s) else ''B2'')"
    by (simp add: val js_trim_toUpperCase allowed_up_to_case)
  have range: "\<exists>t \<in> {''A1'', ''A2'', ''B1'', ''B2'', ''C1''}. normalizeLevel (JStr s) = Inr t"
    using val by (auto simp: allowed_def)
  have any: "\<forall>t. normalizeLevel v = Inr t \<longrightarrow> t \<in> {''A1'', ''A2'', ''B1'', ''B2'', ''C1''}"
    by (auto simp: normalizeLevel_def Let_def allowed_def split: sum.splits if_splits)
  from missing char range any show ?thesis by blast
qed

theorem normalizeLevel_five_tags_witness:
  "normalizeLevel (JStr '' b1 '') = Inr ''B1'' \<and> normalizeLevel (JStr ''C2'') = Inr ''B2''"
  using normalizeLevel_five_tags [of "'' b1 ''"] normalizeLevel_five_tags [of "''C2''"]
  by (simp add: toLowerCase_def toUpperCase_def lower_char_def upper_char_def js_trim_def
      is_space_def lower_letters_def upper_letters_def)

subsection \<open>The context fetcher\<close>

text \<open>
  C1 (amended). For every URL text that is off the allow-list (it does not parse, or its
  scheme is not https, or its host is not ed.ted.com), \<open>fetchTedEdContext\<close> returns a
  context with \<open>ok = False\<close> and makes no network request; the reason it gives is
  \<^verbatim>\<open>invalid_ted_ed_url\<close>, and \<^verbatim>\<open>missing_url\<close> when the trimmed text is empty.
  \<open>extractTedEdContext\<close> returns \<^verbatim>\<open>null\<close> there, without a network request either.
\<close>

theorem context_fetcher_rejects_off_list:
  "(off_list w (js_trim u) \<longrightarrow>
      fetchTedEdContext w u =
        (\<lparr>url = js_trim u, title = [], description = [], extractedText = [], ok = False,
          reason = Some (if js_trim u = [] then ''missing_url'' else ''invalid_ted_ed_url'')\<rparr>,
         [])) \<and>
   (off_list w u \<longrightarrow> extractTedEdContext w u = (Inr None, []))"
  by (auto simp: off_list_def fetchTedEdContext_def extractTedEdContext_def
      isValidTedEdLessonUrl_def isAllowedTedEdUrl_def no_context_def Let_def
      split: option.splits)

theorem context_fetcher_rejects_off_list_witness:
  "off_list (example_world []) (js_trim '' http://ed.ted.com/lessons/x '') \<and>
   fetchTedEdContext (example_world []) '' http://ed.ted.com/lessons/x '' =
     (\<lparr>url = ''http://ed.ted.com/lessons/x'', title = [], description = [],
       extractedText = [], ok = False, reason = Some ''invalid_ted_ed_url''\<rparr>, []) \<and>
   off_list (example_world []) ''https://evil.example.com/x'' \<and>
   extractTedEdContext (example_world []) ''https://evil.example.com/x'' = (Inr None, [])"
proof -
  have trim: "js_trim '' http://ed.ted.com/lessons/x '' = ''http://ed.ted.com/lessons/x''"
    by (simp add: js_trim_def is_space_def)
  have off1: "off_list (example_world []) (js_trim '' http://ed.ted.com/lessons/x '')"
    unfolding trim by (simp add: off_list_def example_world_def url_table_def)
  have off2: "off_list (example_world []) ''https://evil.example.com/x''"
    by (simp add: off_list_def example_world_def url_table_def)
  from off1 off2
    context_fetcher_rejects_off_list [of "example_world []" "'' http://ed.ted.com/lessons/x ''"]
    context_fetcher_rejects_off_list [of "example_world []" "''https://evil.example.com/x''"]
  show ?thesis by (simp add: trim)
qed

text \<open>
  The reason given for \<^verbatim>\<open>https://evil.example.com/x\<close> is \<^verbatim>\<open>invalid_ted_ed_url\<close>, not
  \<^verbatim>\<open>invalid_url\<close>.
\<close>

theorem invalid_url_reason_counterexample:
  "reason (fst (fetchTedEdContext (example_world []) ''https://evil.example.com/x'')) =
     Some ''invalid_ted_ed_url'' \<and>
   reason (fst (fetchTedEdContext (example_world []) ''https://evil.example.com/x'')) \<noteq>
     Some ''invalid_url''"
  by (simp add: fetchTedEdContext_def isValidTedEdLessonUrl_def example_world_def
      url_table_def js_trim_def is_space_def Let_def no_context_def)

text \<open>
  The version of \<open>fetchTedEdContext\<close> recovers from every failure of the fetch: an
  exception of \<^verbatim>\<open>fetch\<close>, of \<^verbatim>\<open>resp.text\<close> or of \<^verbatim>\<open>cheerio.load\<close> gives the context
  with reason \<^verbatim>\<open>fetch_failed\<close>.
\<close>

lemma fetchTedEdContext_fetch_failed:
  assumes "js_trim u \<noteq> []" and "isValidTedEdLessonUrl w (js_trim u)"
    and "fetch w (js_trim u) = Inl e \<or>
         (\<exists>resp. fetch w (js_trim u) = Inr resp \<and>
            (resp_text resp = Inl e \<or>
             (\<exists>html. resp_text resp = Inr html \<and> cheerio_load w html = Inl e)))"
  shows "fetchTedEdContext w u = (no_context (js_trim u) ''fetch_failed'', [Fetched (js_trim u)])"
  using assms by (auto simp: fetchTedEdContext_def Let_def and_then_def)

text \<open>
  C2. In the version that calls \<open>extractTedEdContext\<close>, a request with a level, a
  list of messages and an allowed lesson URL whose fetch fails is answered with status
  500 and the message of the fetch error: the exception leaves \<open>extractTedEdContext\<close>,
  which has no \<^verbatim>\<open>catch\<close>, and reaches the \<^verbatim>\<open>catch\<close> of the handler. No prompt is
  built and the completion service is not called.
\<close>

theorem conversation_extract_surfaces_fetch_error:
  assumes "truthy level" and "normalizeLevel level = Inr lvl"
    and "js_trim u \<noteq> []" and "isAllowedTedEdUrl w (js_trim u)"
    and "fetch w (js_trim u) = Inl e"
  shows "post_conversation_extract w
           (JObj [(''level'', level), (''messages'', JArr ms), (''tedUrl'', JStr u)]) =
         (Text_response 500 (or_str (message_of e) ''Conversation error''),
          [Fetched (js_trim u)])"
proof -
  from assms(3) have u: "u \<noteq> []" by (auto simp: js_trim_def)
  from assms(3-5) have "extractTedEdContext w (js_trim u) = (Inl e, [Fetched (js_trim u)])"
    by (simp add: extractTedEdContext_def)
  with assms(1,2) u show ?thesis
    by (simp add: post_conversation_extract_def Let_def js_or_def get_opt_def field_def
        isArray_def caught_send_def)
qed

theorem conversation_extract_surfaces_fetch_error_witness:
  "post_conversation_extract (example_world ''Hi'')
     (JObj [(''level'', JStr ''B2''), (''messages'', JArr []),
            (''tedUrl'', JStr ''https://ed.ted.com/lessons/x'')]) =
   (Text_response 500 ''fetch failed'', [Fetched ''https://ed.ted.com/lessons/x''])"
proof -
  let ?w = "example_world ''Hi''"
  have trimmed: "js_trim ''https://ed.ted.com/lessons/x'' = ''https://ed.ted.com/lessons/x''"
    by (simp add: js_trim_def is_space_def)
  have lvl: "normalizeLevel (JStr ''B2'') = Inr ''B2''"
    by code_simp
  have ok: "isAllowedTedEdUrl ?w ''https://ed.ted.com/lessons/x''"
    by (simp add: isAllowedTedEdUrl_def example_world_def url_table_def)
  have down: "fetch ?w ''https://ed.ted.com/lessons/x'' = Inl (NetworkError ''fetch failed'')"
    by (simp add: example_world_def)
  from conversation_extract_surfaces_fetch_error
    [of "JStr ''B2''" "''B2''" "''https://ed.ted.com/lessons/x''" ?w
        "NetworkError ''fetch failed''" "[]"]
    lvl ok down
  show ?thesis by (simp add: trimmed or_str_def)
qed

subsection \<open>Objects and their properties\<close>

lemma field_Cons: "field ((k', v) # kvs) k = (if k = k' then v else field kvs k)"
  by (simp add: field_def)

lemma field_absent: "k \<notin> set (map fst kvs) \<Longrightarrow> field kvs k = JUndefined"
  using map_of_eq_None_iff [of kvs k] by (simp add: field_def)

lemma map_of_replace:
  "map_of (map (\<lambda>p. if fst p = k then (k, v) else p) kvs) k' =
     (if k' = k then (if k \<in> set (map fst kvs) then Some v else None) else map_of kvs k')"
  by (induction kvs) (force split: if_splits)+

lemma keys_replace: "map fst (map (\<lambda>p. if fst p = k then (k, v) else p) kvs) = map fst kvs"
  by (induction kvs) auto

lemma filter_replace:
  "filter (\<lambda>p. fst p \<noteq> k) (map (\<lambda>p. if fst p = k then (k, v) else p) kvs) =
   filter (\<lambda>p. fst p \<noteq> k) kvs"
  by (induction kvs) auto

lemma field_set_prop: "field (set_prop kvs k v) k' = (if k' = k then v else field kvs k')"
proof (cases "k \<in> set (map fst kvs)")
  case True
  then show ?thesis
    by (simp add: field_def set_prop_def map_of_replace del: set_map)
next
  case False
  then have "map_of kvs k = None"
    by (simp add: map_of_eq_None_iff)
  with False show ?thesis
    by (auto simp: field_def set_prop_def map_add_def split: option.splits)
qed

lemma keys_set_prop: "k \<in> set (map fst (set_prop kvs k v))"
  by (cases "k \<in> set (map fst kvs)")
    (simp_all add: set_prop_def keys_replace del: set_map map_map)

lemma filter_set_prop:
  "filter (\<lambda>p. fst p \<noteq> k) (set_prop kvs k v) = filter (\<lambda>p. fst p \<noteq> k) kvs"
  by (simp add: set_prop_def filter_replace del: set_map)

lemma clean_text_JStr: "clean_text (JStr s) = Inr (js_trim s)"
  by (cases "s = []") (simp_all add: clean_text_def js_or_def and_then_def js_trim_def)

lemma map_throwing_clean_text: "map_throwing clean_text (map JStr ss) = Inr (map js_trim ss)"
  by (induction ss) (simp_all add: clean_text_JStr)

subsection \<open>The drafts of a resume request\<close>

lemma map_throwing_JStr:
  "map_throwing (\<lambda>d. js_String (js_or d (JStr []))) (map JStr ds) = Inr ds"
  by (induction ds) (auto simp: js_or_def)

lemma finalDrafts_drafts:
  assumes "''drafts'' \<notin> set (map fst rest)"
    and "field rest ''writing1'' = JUndefined" "field rest ''writing2'' = JUndefined"
    and "field rest ''writing100'' = JUndefined"
  shows "finalDrafts (JObj ((''drafts'', JArr (map JStr ds)) # rest)) =
         Inr (filter (\<lambda>t. \<not> blank t) ds)"
  using assms
  by (simp add: finalDrafts_def get_opt_def field_Cons js_nullish_def and_then_def isArray_def
      elements_def map_throwing_JStr blank_def)

lemma finalDrafts_legacy:
  assumes "field rest ''drafts'' = JUndefined"
  shows "finalDrafts (JObj ((''writing1'', JStr x) # (''writing2'', JStr y) #
                            (''writing100'', JStr z) # rest)) =
         Inr (filter (\<lambda>t. \<not> blank t) [x, y, z])"
  using assms
  by (simp add: finalDrafts_def get_opt_def field_Cons js_nullish_def and_then_def isArray_def
      elements_def blank_def)

lemma snd_call:
  "snd (case r of Inl e \<Rightarrow> (f e, effs) | Inr c \<Rightarrow> (if P c then (a c, effs) else (b c, effs))) = effs"
  by (simp split: sum.splits)

lemma resume_score_prompt:
  assumes fd: "finalDrafts (JObj kvs) = Inr fd"
    and lvl: "normalizeLevel (js_or (field kvs ''level'') (JStr ''B2'')) = Inr lvl"
  shows "snd (post_resume_score w (JObj kvs)) =
     [Completed [Message ''system'' [Text lvl],
        Message ''user''
          [Json (JArr (map JStr fd)),
           Json (if isArray (field kvs ''newWords'') then field kvs ''newWords'' else JArr []),
           Json (if truthy (field kvs ''sentencesByWord'') \<and>
                    typeof_object (field kvs ''sentencesByWord'')
                 then field kvs ''sentencesByWord'' else JObj [])]]]"
proof -
  have body: "js_or (JObj kvs) (JObj []) = JObj kvs"
    by (simp add: js_or_def)
  have get: "\<And>k. get_opt (JObj kvs) k = field kvs k"
    by (simp add: get_opt_def)
  show ?thesis
    unfolding post_resume_score_def body Let_def get lvl fd and_then_def
    by (simp add: snd_call)
qed

lemma legacy_ignores_drafts:
  "post_resume_score_legacy w (JObj ((''drafts'', d) # rest)) =
   post_resume_score_legacy w (JObj rest)"
  by (simp add: post_resume_score_legacy_def js_or_def get_opt_def field_Cons)

text \<open>
  C7 (amended). In the version of the resume-score endpoint that accepts both payload
  formats, a request that gives its drafts as the array \<^verbatim>\<open>drafts\<close> and a request that
  gives them in the three fields \<^verbatim>\<open>writing1\<close>, \<^verbatim>\<open>writing2\<close>, \<^verbatim>\<open>writing100\<close> are normalized
  to the same list, the non-blank drafts in their order, whenever the two have the same
  non-blank strings in the same order; this list is the one the endpoint puts into the
  prompt it sends, after the level and before the new words and the sentences, and the
  two requests get the same response. The other fields of the request (\<open>rest\<close>) are the
  same on both sides. The first version of the endpoint reads the three named fields
  only: a \<^verbatim>\<open>drafts\<close> array changes nothing of what it sends or returns.
\<close>

theorem resume_drafts_both_shapes:
  assumes rest: "\<forall>k \<in> {''drafts'', ''writing1'', ''writing2'', ''writing100''}.
                   k \<notin> set (map fst rest)"
    and same: "filter (\<lambda>t. \<not> blank t) ds = filter (\<lambda>t. \<not> blank t) [x, y, z]"
    and lvl: "normalizeLevel (js_or (field rest ''level'') (JStr ''B2'')) = Inr lvl"
  shows "finalDrafts (JObj ((''drafts'', JArr (map JStr ds)) # rest)) =
           Inr (filter (\<lambda>t. \<not> blank t) ds) \<and>
         finalDrafts (JObj ((''writing1'', JStr x) # (''writing2'', JStr y) #
                            (''writing100'', JStr z) # rest)) =
           Inr (filter (\<lambda>t. \<not> blank t) ds) \<and>
         snd (post_resume_score w (JObj ((''drafts'', JArr (map JStr ds)) # rest))) =
           [Completed [Message ''system'' [Text lvl],
              Message ''user''
                [Json (JArr (map JStr (filter (\<lambda>t. \<not> blank t) ds))),
                 Json (if isArray (field rest ''newWords'') then field rest ''newWords''
                       else JArr []),
                 Json (if truthy (field rest ''sentencesByWord'') \<and>
                          typeof_object (field rest ''sentencesByWord'')
                       then field rest ''sentencesByWord'' else JObj [])]]] \<and>
         post_resume_score w (JObj ((''writing1'', JStr x) # (''writing2'', JStr y) #
                                    (''writing100'', JStr z) # rest)) =
         post_resume_score w (JObj ((''drafts'', JArr (map JStr ds)) # rest)) \<and>
         post_resume_score_legacy w (JObj ((''drafts'', JArr (map JStr ds)) # rest)) =
         post_resume_score_legacy w (JObj rest)"
proof -
  let ?A = "JObj ((''drafts'', JArr (map JStr ds)) # rest)"
  let ?B = "JObj ((''writing1'', JStr x) # (''writing2'', JStr y) #
                  (''writing100'', JStr z) # rest)"
  from rest have absent: "field rest ''drafts'' = JUndefined"
    "field rest ''writing1'' = JUndefined" "field rest ''writing2'' = JUndefined"
    "field rest ''writing100'' = JUndefined"
    and nd: "''drafts'' \<notin> set (map fst rest)"
    by (simp_all add: field_absent del: set_map)
  have a: "finalDrafts ?A = Inr (filter (\<lambda>t. \<not> blank t) ds)"
    using nd absent by (simp add: finalDrafts_drafts del: set_map)
  have b: "finalDrafts ?B = Inr (filter (\<lambda>t. \<not> blank t) ds)"
    using absent same by (simp add: finalDrafts_legacy)
  have other: "get_opt (js_or ?A (JObj [])) k = get_opt (js_or ?B (JObj [])) k"
    if "k \<in> {''level'', ''newWords'', ''sentencesByWord''}" for k
    using that by (auto simp: js_or_def get_opt_def field_Cons)
  have body: "js_or ?A (JObj []) = ?A" "js_or ?B (JObj []) = ?B"
    by (simp_all add: js_or_def)
  have eq: "post_resume_score w ?B = post_resume_score w ?A"
    unfolding post_resume_score_def Let_def body
    using other a b by (simp add: body)
  have fields: "field ((''drafts'', JArr (map JStr ds)) # rest) ''level'' = field rest ''level''"
    "field ((''drafts'', JArr (map JStr ds)) # rest) ''newWords'' = field rest ''newWords''"
    "field ((''drafts'', JArr (map JStr ds)) # rest) ''sentencesByWord'' =
     field rest ''sentencesByWord''"
    by (simp_all add: field_Cons)
  have sent: "snd (post_resume_score w ?A) =
           [Completed [Message ''system'' [Text lvl],
              Message ''user''
                [Json (JArr (map JStr (filter (\<lambda>t. \<not> blank t) ds))),
                 Json (if isArray (field rest ''newWords'') then field rest ''newWords''
                       else JArr []),
                 Json (if truthy (field rest ''sentencesByWord'') \<and>
                          typeof_object (field rest ''sentencesByWord'')
                       then field rest ''sentencesByWord'' else JObj [])]]]"
    using resume_score_prompt [OF a, of lvl w] lvl by (simp only: fields)
  note a b sent eq legacy_ignores_drafts [of w "JArr (map JStr ds)" rest]
  then show ?thesis by (intro conjI)
qed

theorem resume_drafts_both_shapes_witness:
  "finalDrafts (JObj [(''drafts'', JArr [JStr ''a'', JStr ''b'']), (''level'', JStr ''b1'')]) =
     Inr [''a'', ''b''] \<and>
   finalDrafts (JObj [(''writing1'', JStr ''a''), (''writing2'', JStr ''b''),
                      (''writing100'', JStr []), (''level'', JStr ''b1'')]) =
     Inr [''a'', ''b''] \<and>
   snd (post_resume_score (example_world ''{}'')
     (JObj [(''drafts'', JArr [JStr ''a'', JStr ''b'']), (''level'', JStr ''b1'')])) =
     [Completed [Message ''system'' [Text ''B1''],
        Message ''user'' [Json (JArr [JStr ''a'', JStr ''b'']), Json (JArr []), Json (JObj [])]]] \<and>
   post_resume_score (example_world ''{}'')
     (JObj [(''writing1'', JStr ''a''), (''writing2'', JStr ''b''),
            (''writing100'', JStr []), (''level'', JStr ''b1'')]) =
   post_resume_score (example_world ''{}'')
     (JObj [(''drafts'', JArr [JStr ''a'', JStr ''b'']), (''level'', JStr ''b1'')]) \<and>
   post_resume_score_legacy (example_world ''{}'')
     (JObj [(''drafts'', JArr [JStr ''a'', JStr ''b'']), (''level'', JStr ''b1'')]) =
   post_resume_score_legacy (example_world ''{}'') (JObj [(''level'', JStr ''b1'')])"
proof -
  have l: "normalizeLevel (js_or (field [(''level'', JStr ''b1'')] ''level'') (JStr ''B2'')) =
           Inr ''B1''"
    by code_simp
  show ?thesis
    using resume_drafts_both_shapes
      [of "[(''level'', JStr ''b1'')]" "[''a'', ''b'']" "''a''" "''b''" "[]" "''B1''"
          "example_world ''{}''", OF _ _ l]
    by (simp add: blank_def js_trim_def is_space_def field_def isArray_def)
qed

text \<open>
  The first version does not normalize the two shapes to one list: with the drafts
  \<^verbatim>\<open>["a", "b"]\<close> in \<^verbatim>\<open>drafts\<close> it sends three empty drafts, with the same drafts in the
  named fields it sends them.
\<close>

theorem resume_legacy_ignores_drafts_counterexample:
  "snd (post_resume_score_legacy (example_world ''{}'')
          (JObj [(''drafts'', JArr [JStr ''a'', JStr ''b''])])) =
     [Completed [Message ''system'' [Text ''B2''],
        Message ''user'' [Text [], Text [], Text [], Json (JArr []), Json (JObj [])]]] \<and>
   snd (post_resume_score_legacy (example_world ''{}'')
          (JObj [(''writing1'', JStr ''a''), (''writing2'', JStr ''b''),
                 (''writing100'', JStr [])])) =
     [Completed [Message ''system'' [Text ''B2''],
        Message ''user'' [Text ''a'', Text ''b'', Text [], Json (JArr []), Json (JObj [])]]]"
  by code_simp

subsection \<open>The vocabulary of a conversation request\<close>



lemma unique_from_subset: "set (unique_from seen xs) \<subseteq> set xs"
  by (induction xs arbitrary: seen) (auto simp: Let_def)

lemma normalizeLevel_B2: "normalizeLevel (JStr ''B2'') = Inr ''B2''"
  by code_simp







lemma req_body: "js_or (vocabulary_request l ws) (JObj []) = vocabulary_request l ws"
  by (simp add: js_or_def vocabulary_request_def)









subsection \<open>The post-parse normalization of the vocabulary endpoint\<close>

text \<open>
  C10. The normalization of an object item of the parsed array keeps every property
  other than \<^verbatim>\<open>translations\<close>, with its value and in its place; the normalized item has
  a property \<^verbatim>\<open>translations\<close>, whose value is the original one when that is an object
  (a truthy value of type object, which includes arrays) and the empty object otherwise,
  also when the property was missing.
\<close>

theorem normalize_item_frame:
  "\<exists>kvs'. normalize_item (JObj kvs) = JObj kvs' \<and>
      filter (\<lambda>p. fst p \<noteq> ''translations'') kvs' =
        filter (\<lambda>p. fst p \<noteq> ''translations'') kvs \<and>
      (\<forall>k. k \<noteq> ''translations'' \<longrightarrow> field kvs' k = field kvs k) \<and>
      ''translations'' \<in> set (map fst kvs') \<and>
      field kvs' ''translations'' =
        (if truthy (field kvs ''translations'') \<and> typeof_object (field kvs ''translations'')
         then field kvs ''translations'' else JObj [])"
  by (simp add: normalize_item_def Let_def typeof_object_def get_opt_def own_props_def
      filter_set_prop field_set_prop keys_set_prop del: set_map)

theorem normalize_item_frame_witness:
  "normalize_item (JObj [(''word'', JStr ''cat''), (''translations'', JStr ''gato'')]) =
     JObj [(''word'', JStr ''cat''), (''translations'', JObj [])] \<and>
   normalize_item (JObj [(''translations'', JObj [(''es'', JStr ''gato'')]), (''word'', JStr ''cat'')]) =
     JObj [(''translations'', JObj [(''es'', JStr ''gato'')]), (''word'', JStr ''cat'')] \<and>
   normalize_item (JObj [(''word'', JStr ''cat'')]) =
     JObj [(''word'', JStr ''cat''), (''translations'', JObj [])]"
proof -
  have eval:
    "normalize_item (JObj [(''word'', JStr ''cat''), (''translations'', JStr ''gato'')]) =
       JObj [(''word'', JStr ''cat''), (''translations'', JObj [])]"
    "normalize_item (JObj [(''translations'', JObj [(''es'', JStr ''gato'')]), (''word'', JStr ''cat'')]) =
       JObj [(''translations'', JObj [(''es'', JStr ''gato'')]), (''word'', JStr ''cat'')]"
    "normalize_item (JObj [(''word'', JStr ''cat'')]) =
       JObj [(''word'', JStr ''cat''), (''translations'', JObj [])]"
    by (simp_all add: normalize_item_def Let_def typeof_object_def get_opt_def own_props_def
        set_prop_def field_def)
  from normalize_item_frame [of "[(''word'', JStr ''cat''), (''translations'', JStr ''gato'')]"]
    eval
  show ?thesis by simp
qed

subsection \<open>The reply of the completion service\<close>

lemma status_caught [simp]: "status (caught e) = 500"
  by (simp add: caught_def)

lemma status_bad_json [simp]: "status (bad_json m c) = 502"
  by (simp add: bad_json_def)

lemma parseJsonSafely_None: "JSON_parse w t = None \<Longrightarrow> parseJsonSafely w t = JNull"
  by (simp add: parseJsonSafely_def)

lemma parseJsonSafely_Some: "JSON_parse w t = Some v \<Longrightarrow> parseJsonSafely w t = v"
  by (simp add: parseJsonSafely_def)

lemma truthy_parseJsonSafely:
  "truthy (parseJsonSafely w t) \<Longrightarrow> \<exists>v. JSON_parse w t = Some v \<and> truthy v"
  by (cases "JSON_parse w t") (simp_all add: parseJsonSafely_def)

lemma writing_feedback_judged:
  "post_writing_feedback w b = (r, [Completed msgs]) \<Longrightarrow>
   chat_completions_create w msgs = Inr c \<Longrightarrow> reply_judged w (trimmed_content c) r"
  by (auto simp: post_writing_feedback_def Let_def reply_judged_def split: if_splits sum.splits)

lemma writing_feedback_200:
  "post_writing_feedback w b = (r, effs) \<Longrightarrow> status r = 200 \<Longrightarrow>
     \<exists>msgs c. effs = [Completed msgs] \<and> chat_completions_create w msgs = Inr c"
  by (auto simp: post_writing_feedback_def Let_def split: if_splits sum.splits)

lemma vocabulary_plain_judged:
  "post_vocabulary_plain w b = (r, [Completed msgs]) \<Longrightarrow>
   chat_completions_create w msgs = Inr c \<Longrightarrow> reply_judged w (trimmed_content c) r"
  by (auto simp: post_vocabulary_plain_def Let_def reply_judged_def split: if_splits sum.splits)

lemma vocabulary_plain_200:
  "post_vocabulary_plain w b = (r, effs) \<Longrightarrow> status r = 200 \<Longrightarrow>
     \<exists>msgs c. effs = [Completed msgs] \<and> chat_completions_create w msgs = Inr c"
  by (auto simp: post_vocabulary_plain_def Let_def split: if_splits sum.splits)

lemma vocabulary_judged:
  "post_vocabulary w b = (r, [Completed msgs]) \<Longrightarrow>
   chat_completions_create w msgs = Inr c \<Longrightarrow> reply_judged w (trimmed_content c) r"
  by (auto simp: post_vocabulary_def Let_def reply_judged_def split: if_splits sum.splits)

lemma vocabulary_200:
  "post_vocabulary w b = (r, effs) \<Longrightarrow> status r = 200 \<Longrightarrow>
     \<exists>msgs c. effs = [Completed msgs] \<and> chat_completions_create w msgs = Inr c"
  by (auto simp: post_vocabulary_def Let_def split: if_splits sum.splits)

lemma sentences_feedback_judged:
  "post_sentences_feedback w b = (r, [Completed msgs]) \<Longrightarrow>
   chat_completions_create w msgs = Inr c \<Longrightarrow> reply_judged w (plain_content c) r"
  by (auto simp: post_sentences_feedback_def Let_def reply_judged_def
      split: if_splits sum.splits)

lemma sentences_feedback_200:
  "post_sentences_feedback w b = (r, effs) \<Longrightarrow> status r = 200 \<Longrightarrow>
     \<exists>msgs c. effs = [Completed msgs] \<and> chat_completions_create w msgs = Inr c"
  by (auto simp: post_sentences_feedback_def Let_def split: if_splits sum.splits)

lemma resume_score_legacy_judged:
  "post_resume_score_legacy w b = (r, [Completed msgs]) \<Longrightarrow>
   chat_completions_create w msgs = Inr c \<Longrightarrow> reply_judged w (trimmed_content c) r"
  by (auto simp: post_resume_score_legacy_def Let_def reply_judged_def
      split: if_splits sum.splits)

lemma resume_score_legacy_200:
  "post_resume_score_legacy w b = (r, effs) \<Longrightarrow> status r = 200 \<Longrightarrow>
     \<exists>msgs c. effs = [Completed msgs] \<and> chat_completions_create w msgs = Inr c"
  by (auto simp: post_resume_score_legacy_def Let_def split: if_splits sum.splits)

lemma resume_score_judged:
  "post_resume_score w b = (r, [Completed msgs]) \<Longrightarrow>
   chat_completions_create w msgs = Inr c \<Longrightarrow> reply_judged w (trimmed_content c) r"
  by (auto simp: post_resume_score_def Let_def reply_judged_def split: if_splits sum.splits)

lemma resume_score_200:
  "post_resume_score w b = (r, effs) \<Longrightarrow> status r = 200 \<Longrightarrow>
     \<exists>msgs c. effs = [Completed msgs] \<and> chat_completions_create w msgs = Inr c"
  by (auto simp: post_resume_score_def Let_def split: if_splits sum.splits)

lemma json_endpoints_judged:
  assumes "(h, content) \<in> set json_endpoints"
    and "h w b = (r, [Completed msgs])" and "chat_completions_create w msgs = Inr c"
  shows "reply_judged w (content c) r"
  using assms
  by (auto simp: json_endpoints_def
      dest: writing_feedback_judged vocabulary_plain_judged vocabulary_judged
        sentences_feedback_judged resume_score_legacy_judged resume_score_judged)

lemma json_endpoints_200:
  assumes "(h, content) \<in> set json_endpoints" and "h w b = (r, effs)" and "status r = 200"
  shows "\<exists>msgs c. effs = [Completed msgs] \<and> chat_completions_create w msgs = Inr c"
  using assms
  by (auto simp: json_endpoints_def
      dest: writing_feedback_200 vocabulary_plain_200 vocabulary_200
        sentences_feedback_200 resume_score_legacy_200 resume_score_200)

lemma json_endpoints_content:
  assumes "(h, content) \<in> set json_endpoints" and "js_trim s = s"
  shows "content (Some s) = s"
  using assms by (auto simp: json_endpoints_def trimmed_content_def plain_content_def)

text \<open>
  C3 (amended). An endpoint that reads the reply through \<open>parseJsonSafely\<close>
  (writing-feedback, vocabulary, sentences-feedback, resume-score) parses the content of
  the reply trimmed of surrounding white space (sentences-feedback: the content as it
  is), the empty text when the reply has no content. When that text fails JSON parsing,
  the endpoint responds with status 502 and a body whose \<^verbatim>\<open>raw\<close> field is exactly that
  text. The schema-constrained variant of writing-feedback responds with status 500
  and a body that has the error message only.
\<close>

theorem parse_failure_502_raw_is_parsed_text:
  "((h, content) \<in> set json_endpoints \<and> h w b = (r, [Completed msgs]) \<and>
    chat_completions_create w msgs = Inr c \<and> JSON_parse w (content c) = None \<longrightarrow>
      (\<exists>m. r = Json_response 502 (JObj [(''error'', JStr m), (''raw'', JStr (content c))]))) \<and>
   (post_writing_feedback_json_schema w b = (r', [Completed msgs']) \<and>
    responses_create w msgs' = Inr t \<and> JSON_parse w t = None \<longrightarrow>
      (\<exists>m. r' = Json_response 500 (JObj [(''error'', JStr m)])))"
proof -
  have one: "\<exists>m. r = Json_response 502 (JObj [(''error'', JStr m), (''raw'', JStr (content c))])"
    if "(h, content) \<in> set json_endpoints" "h w b = (r, [Completed msgs])"
      "chat_completions_create w msgs = Inr c" "JSON_parse w (content c) = None"
  proof -
    from that(1-3) have "reply_judged w (content c) r" by (rule json_endpoints_judged)
    with that(4) show ?thesis
      by (simp add: reply_judged_def parseJsonSafely_None bad_json_def)
  qed
  have two: "\<exists>m. r' = Json_response 500 (JObj [(''error'', JStr m)])"
    if "post_writing_feedback_json_schema w b = (r', [Completed msgs'])"
      "responses_create w msgs' = Inr t" "JSON_parse w t = None"
    using that
    by (auto simp: post_writing_feedback_json_schema_def Let_def caught_def error_body_def
        split: if_splits sum.splits option.splits)
  from one two show ?thesis by blast
qed

theorem parse_failure_502_raw_is_parsed_text_witness:
  "(post_writing_feedback, trimmed_content) \<in> set json_endpoints \<and>
   snd (post_writing_feedback (example_world ''  not json '') (JObj [(''text'', JStr ''Hi'')])) =
     [Completed [Message ''system'' [Text ''B2''], Message ''user'' [Text ''Writing'', Text ''Hi'']]] \<and>
   JSON_parse (example_world ''  not json '') ''not json'' = None \<and>
   (\<exists>m. fst (post_writing_feedback (example_world ''  not json '') (JObj [(''text'', JStr ''Hi'')])) =
      Json_response 502 (JObj [(''error'', JStr m), (''raw'', JStr ''not json'')]))"
proof -
  let ?w = "example_world ''  not json ''"
  let ?b = "JObj [(''text'', JStr ''Hi'')]"
  let ?msgs = "[Message ''system'' [Text ''B2''], Message ''user'' [Text ''Writing'', Text ''Hi'']]"
  have mem: "(post_writing_feedback, trimmed_content) \<in> set json_endpoints"
    by (simp add: json_endpoints_def)
  have call: "snd (post_writing_feedback ?w ?b) = [Completed ?msgs]"
    by code_simp
  then have run: "post_writing_feedback ?w ?b = (fst (post_writing_feedback ?w ?b), [Completed ?msgs])"
    by (simp add: prod_eq_iff)
  have reply: "chat_completions_create ?w ?msgs = Inr (Some ''  not json '')"
    by (simp add: example_world_def)
  have trimmed: "trimmed_content (Some ''  not json '') = ''not json''"
    by (simp add: trimmed_content_def js_trim_def is_space_def)
  have fails: "JSON_parse ?w ''not json'' = None"
    by (simp add: example_world_def parse_table_def)
  from parse_failure_502_raw_is_parsed_text
    [of post_writing_feedback trimmed_content ?w ?b "fst (post_writing_feedback ?w ?b)" ?msgs
      "Some ''  not json ''"]
    mem run reply fails
  have "\<exists>m. fst (post_writing_feedback ?w ?b) =
      Json_response 502 (JObj [(''error'', JStr m), (''raw'', JStr ''not json'')])"
    by (simp add: trimmed)
  with mem call fails show ?thesis by blast
qed

text \<open>
  The reply \<^verbatim>\<open> not json\<close>, with a space in front, fails JSON parsing; the
  writing-feedback endpoint answers with \<^verbatim>\<open>raw\<close> equal to \<^verbatim>\<open>not json\<close>, which is not the
  text of the reply. To the reply \<^verbatim>\<open>not json\<close> the schema-constrained variant answers
  with status 500 and no \<^verbatim>\<open>raw\<close> field.
\<close>

theorem raw_unmodified_counterexample:
  "JSON_parse (example_world '' not json'') '' not json'' = None \<and>
   fst (post_writing_feedback (example_world '' not json'') (JObj [(''text'', JStr ''Hi'')])) =
     Json_response 502
       (JObj [(''error'', JStr ''Model did not return valid JSON.''),
              (''raw'', JStr ''not json'')]) \<and>
   ''not json'' \<noteq> '' not json'' \<and>
   JSON_parse (example_world ''not json'') ''not json'' = None \<and>
   status (fst (post_writing_feedback_json_schema (example_world ''not json'')
                  (JObj [(''text'', JStr ''Hi'')]))) = 500"
  by code_simp

subsection \<open>The response of the vocabulary endpoint\<close>

lemma has_translations_normalize_item: "has_translations (normalize_item it)"
  by (simp add: has_translations_def normalize_item_def Let_def keys_set_prop del: set_map)

lemma vocabulary_200_body:
  "post_vocabulary w b = (r, [Completed msgs]) \<Longrightarrow>
   chat_completions_create w msgs = Inr c \<Longrightarrow> status r = 200 \<Longrightarrow>
     \<exists>items. JSON_parse w (trimmed_content c) = Some (JArr items) \<and>
       r = Json_response 200 (JArr (map normalize_item items))"
  by (auto simp: post_vocabulary_def Let_def parseJsonSafely_def isArray_def elements_def
      split: if_splits sum.splits option.splits jsval.splits)

text \<open>
  C5 (amended). Whenever the vocabulary endpoint (the version with translations)
  responds with status 200, the completion service has been called once, its trimmed
  reply parsed to an array, and the body of the response is the array of the normalized
  items of that array: it has the length of the array the service returned, whatever
  the number of words asked for, and each of its elements is an object that has a
  \<^verbatim>\<open>translations\<close> property.
\<close>

theorem vocabulary_200_shape:
  assumes "post_vocabulary w b = (r, effs)" and "status r = 200"
  shows "\<exists>msgs c items. effs = [Completed msgs] \<and> chat_completions_create w msgs = Inr c \<and>
           JSON_parse w (trimmed_content c) = Some (JArr items) \<and>
           r = Json_response 200 (JArr (map normalize_item items)) \<and>
           length (map normalize_item items) = length items \<and>
           list_all has_translations (map normalize_item items)"
proof -
  from assms obtain msgs c where e: "effs = [Completed msgs]"
    and c: "chat_completions_create w msgs = Inr c"
    by (blast dest: vocabulary_200)
  with assms obtain items where "JSON_parse w (trimmed_content c) = Some (JArr items)"
    and "r = Json_response 200 (JArr (map normalize_item items))"
    by (blast dest: vocabulary_200_body)
  moreover have "list_all has_translations (map normalize_item items)"
    by (simp add: list_all_iff has_translations_normalize_item)
  ultimately show ?thesis using e c by auto
qed

theorem vocabulary_200_shape_witness:
  "post_vocabulary (example_world ''[{}]'') (JObj [(''words'', JArr [JStr ''cat''])]) =
     (Json_response 200 (JArr [JObj [(''translations'', JObj [])]]),
      [Completed [Message ''system'' [Text ''B2'', Text ''B2''], Message ''user'' [Text ''cat'']]]) \<and>
   (\<exists>items. JSON_parse (example_world ''[{}]'') ''[{}]'' = Some (JArr items) \<and>
      JArr [JObj [(''translations'', JObj [])]] = JArr (map normalize_item items) \<and>
      list_all has_translations (map normalize_item items))"
proof -
  let ?w = "example_world ''[{}]''"
  let ?b = "JObj [(''words'', JArr [JStr ''cat''])]"
  let ?msgs = "[Message ''system'' [Text ''B2'', Text ''B2''], Message ''user'' [Text ''cat'']]"
  have run: "post_vocabulary ?w ?b =
     (Json_response 200 (JArr [JObj [(''translations'', JObj [])]]), [Completed ?msgs])"
    by code_simp
  have trimmed: "trimmed_content (Some ''[{}]'') = ''[{}]''"
    by (simp add: trimmed_content_def js_trim_def is_space_def)
  have reply: "chat_completions_create ?w m = Inr (Some ''[{}]'')" for m
    by (simp add: example_world_def)
  from vocabulary_200_shape [OF run]
  obtain msgs c items where "chat_completions_create ?w msgs = Inr c"
    and "JSON_parse ?w (trimmed_content c) = Some (JArr items)"
    and "Json_response 200 (JArr [JObj [(''translations'', JObj [])]]) =
         Json_response 200 (JArr (map normalize_item items))"
    and "list_all has_translations (map normalize_item items)"
    by auto
  with reply trimmed have "\<exists>items. JSON_parse ?w ''[{}]'' = Some (JArr items) \<and>
      JArr [JObj [(''translations'', JObj [])]] = JArr (map normalize_item items) \<and>
      list_all has_translations (map normalize_item items)"
    by auto
  with run show ?thesis by simp
qed

text \<open>
  One word is asked for and the service replies the empty array: the response has
  status 200 and an empty body, while the cleaned list of words has one entry. In the
  first version of the endpoint the items are returned as the service gave them, here
  without \<^verbatim>\<open>translations\<close>.
\<close>

theorem vocabulary_length_counterexample:
  "post_vocabulary (example_world ''[]'') (JObj [(''words'', JArr [JStr ''cat''])]) =
     (Json_response 200 (JArr []),
      [Completed [Message ''system'' [Text ''B2'', Text ''B2''], Message ''user'' [Text ''cat'']]]) \<and>
   cleanWords (JArr [JStr ''cat'']) = Inr [''cat''] \<and>
   length ([] :: jsval list) \<noteq> length [''cat''] \<and>
   post_vocabulary_plain (example_world ''[{}]'') (JObj [(''words'', JArr [JStr ''cat''])]) =
     (Json_response 200 (JArr [JObj []]),
      [Completed [Message ''system'' [Text ''B2''], Message ''user'' [Text ''cat'']]]) \<and>
   \<not> has_translations (JObj [])"
  by code_simp

subsection \<open>The validation of a sentences request\<close>

lemma clean_one_typed: "clean_one (typed_item p) = Inr (clean_pair p)"
  by (simp add: clean_one_def typed_item_def clean_pair_def get_prop_def field_def and_then_def
      clean_text_JStr isArray_def elements_def map_throwing_clean_text)

lemma map_throwing_clean_one:
  "map_throwing clean_one (map typed_item ps) = Inr (map clean_pair ps)"
  by (induction ps) (simp_all add: clean_one_typed)

lemma kept_clean_pair: "kept (clean_pair p) = valid_pair p"
  by (auto simp: kept_def clean_pair_def valid_pair_def blank_def list_all_iff)

lemma cleanItems_typed:
  "cleanItems (JArr (map typed_item ps)) = Inr (map clean_pair (filter valid_pair ps))"
  by (simp add: cleanItems_def elements_def map_throwing_clean_one and_then_def filter_map
      comp_def kept_clean_pair)

lemma cleanItems_not_array: "\<not> isArray items \<Longrightarrow> cleanItems items = Inr []"
  by (auto simp: cleanItems_def elements_def isArray_def and_then_def split: jsval.splits)

lemma cleanItems_empty: "elements items = [] \<Longrightarrow> cleanItems items = Inr []"
  by (simp add: cleanItems_def and_then_def)

lemma sentences_400_iff:
  "status (fst (post_sentences_feedback w b)) = 400 \<longleftrightarrow>
   cleanItems (get_opt (js_or b (JObj [])) ''items'') = Inr []"
proof (cases "isArray (get_opt (js_or b (JObj [])) ''items'') \<and>
              elements (get_opt (js_or b (JObj [])) ''items'') \<noteq> []")
  case False
  then have "cleanItems (get_opt (js_or b (JObj [])) ''items'') = Inr []"
    using cleanItems_not_array cleanItems_empty by blast
  moreover from False have "status (fst (post_sentences_feedback w b)) = 400"
    by (auto simp: post_sentences_feedback_def Let_def)
  ultimately show ?thesis by simp
next
  case True
  then show ?thesis
    by (cases "cleanItems (get_opt (js_or b (JObj [])) ''items'')")
      (auto simp: post_sentences_feedback_def Let_def split: sum.splits)
qed

lemma sentences_400_no_call:
  "status (fst (post_sentences_feedback w b)) = 400 \<Longrightarrow> snd (post_sentences_feedback w b) = []"
  by (auto simp: post_sentences_feedback_def Let_def split: sum.splits if_splits)

lemma sentences_proceeds:
  assumes "cleanItems (get_opt (js_or b (JObj [])) ''items'') = Inr cis" and "cis \<noteq> []"
    and "js_String (js_or (get_opt (js_or b (JObj [])) ''level'') (JStr ''B2'')) = Inr lvl"
  shows "snd (post_sentences_feedback w b) =
     [Completed [Message ''system'' [Text lvl],
                 Message ''user'' [Json (JObj [(''items'', JArr (map item_json cis))])]]]"
proof -
  from assms(1,2) have "isArray (get_opt (js_or b (JObj [])) ''items'')"
    "elements (get_opt (js_or b (JObj [])) ''items'') \<noteq> []"
    using cleanItems_not_array cleanItems_empty by fastforce+
  with assms show ?thesis
    by (auto simp: post_sentences_feedback_def Let_def split: sum.splits)
qed

lemma map_throwing_mem:
  "map_throwing f xs = Inr ys \<Longrightarrow> x \<in> set xs \<Longrightarrow> \<exists>y \<in> set ys. f x = Inr y"
proof (induction xs arbitrary: ys)
  case Nil
  then show ?case by simp
next
  case (Cons a xs)
  from Cons.prems(1) obtain b bs where a: "f a = Inr b" and bs: "map_throwing f xs = Inr bs"
    and ys: "ys = b # bs"
    by (auto split: sum.splits)
  show ?case
  proof (cases "x = a")
    case True
    with a ys show ?thesis by simp
  next
    case False
    with Cons.prems(2) have "x \<in> set xs" by simp
    with Cons.IH [OF bs] ys show ?thesis by auto
  qed
qed

lemma valid_item_not_400:
  assumes "it \<in> set (elements (get_opt (js_or b (JObj [])) ''items''))"
    and "clean_one it = Inr ci" and "kept ci"
  shows "status (fst (post_sentences_feedback w b)) \<noteq> 400"
proof
  assume "status (fst (post_sentences_feedback w b)) = 400"
  then have "cleanItems (get_opt (js_or b (JObj [])) ''items'') = Inr []"
    by (simp add: sentences_400_iff)
  then obtain its
    where its: "map_throwing clean_one (elements (get_opt (js_or b (JObj [])) ''items'')) =
                Inr its"
      and none: "filter kept its = []"
    by (auto simp: cleanItems_def and_then_def split: sum.splits)
  from map_throwing_mem [OF its assms(1)] assms(2) have "ci \<in> set its" by auto
  with assms(3) have "ci \<in> set (filter kept its)" by simp
  with none show False by simp
qed

text \<open>
  C6. The cleaned list of a sentences request with well-typed items consists of the
  cleaned valid items, in their order: an item whose word is blank, whose number of
  sentences is not two, or one of whose sentences is blank, is left out. The endpoint
  responds with status 400 exactly when the cleaned list is empty (for well-typed
  items: when no item is valid), and then it has made no call. A request one of whose
  items is cleaned to a kept item is never answered with status 400. When the cleaned
  list is not empty the endpoint goes on to call the completion service, once, with
  the cleaned items.
\<close>

theorem sentences_feedback_validation:
  "cleanItems (JArr (map typed_item ps)) = Inr (map clean_pair (filter valid_pair ps)) \<and>
   (status (fst (post_sentences_feedback w b)) = 400 \<longleftrightarrow>
      cleanItems (get_opt (js_or b (JObj [])) ''items'') = Inr []) \<and>
   (status (fst (post_sentences_feedback w (JObj ((''items'', JArr (map typed_item ps)) # rest))))
      = 400 \<longleftrightarrow> filter valid_pair ps = []) \<and>
   (status (fst (post_sentences_feedback w b)) = 400 \<longrightarrow> snd (post_sentences_feedback w b) = []) \<and>
   (it \<in> set (elements (get_opt (js_or b (JObj [])) ''items'')) \<and> clean_one it = Inr ci \<and>
    kept ci \<longrightarrow> status (fst (post_sentences_feedback w b)) \<noteq> 400) \<and>
   (cleanItems (get_opt (js_or b (JObj [])) ''items'') = Inr cis \<and> cis \<noteq> [] \<and>
    js_String (js_or (get_opt (js_or b (JObj [])) ''level'') (JStr ''B2'')) = Inr lvl \<longrightarrow>
      snd (post_sentences_feedback w b) =
        [Completed [Message ''system'' [Text lvl],
                    Message ''user'' [Json (JObj [(''items'', JArr (map item_json cis))])]]])"
proof -
  have typed: "get_opt (js_or (JObj ((''items'', JArr (map typed_item ps)) # rest)) (JObj []))
      ''items'' = JArr (map typed_item ps)"
    by (simp add: js_or_def get_opt_def field_Cons)
  have "status (fst (post_sentences_feedback w (JObj ((''items'', JArr (map typed_item ps)) # rest))))
      = 400 \<longleftrightarrow> filter valid_pair ps = []"
    unfolding sentences_400_iff typed cleanItems_typed by simp
  then show ?thesis
    using cleanItems_typed sentences_400_iff sentences_400_no_call sentences_proceeds
      valid_item_not_400
    by blast
qed

theorem sentences_feedback_validation_witness:
  "cleanItems (JArr (map typed_item [(''cat'', [''A cat.'', ''  '']),
                                     ('' dog '', [''A dog.'', '' Dogs bark. '']),
                                     (''  '', [''One.'', ''Two.'']),
                                     (''owl'', [''An owl.''])])) =
     Inr [\<lparr>word = ''dog'', sentences = [''A dog.'', ''Dogs bark.'']\<rparr>] \<and>
   status (fst (post_sentences_feedback (example_world ''{}'')
     (JObj [(''items'', JArr (map typed_item [(''cat'', [''A cat.'', ''  ''])]))]))) = 400 \<and>
   snd (post_sentences_feedback (example_world ''{}'')
     (JObj [(''items'', JArr (map typed_item [(''cat'', [''A cat.'', ''  ''])]))])) = []"
proof -
  have v: "filter valid_pair [(''cat'', [''A cat.'', ''  '']),
                              ('' dog '', [''A dog.'', '' Dogs bark. '']),
                              (''  '', [''One.'', ''Two.'']),
                              (''owl'', [''An owl.''])] =
           [('' dog '', [''A dog.'', '' Dogs bark. ''])]"
    by (simp add: valid_pair_def blank_def js_trim_def is_space_def)
  have c: "clean_pair ('' dog '', [''A dog.'', '' Dogs bark. '']) =
      \<lparr>word = ''dog'', sentences = [''A dog.'', ''Dogs bark.'']\<rparr>"
    by (simp add: clean_pair_def js_trim_def is_space_def)
  have n: "filter valid_pair [(''cat'', [''A cat.'', ''  ''])] = []"
    by (simp add: valid_pair_def blank_def js_trim_def is_space_def)
  from sentences_feedback_validation
    [of "[(''cat'', [''A cat.'', ''  '']), ('' dog '', [''A dog.'', '' Dogs bark. '']),
          (''  '', [''One.'', ''Two.'']), (''owl'', [''An owl.''])]"]
  have first: "cleanItems (JArr (map typed_item [(''cat'', [''A cat.'', ''  '']),
                                     ('' dog '', [''A dog.'', '' Dogs bark. '']),
                                     (''  '', [''One.'', ''Two.'']),
                                     (''owl'', [''An owl.''])])) =
     Inr [\<lparr>word = ''dog'', sentences = [''A dog.'', ''Dogs bark.'']\<rparr>]"
    unfolding v by (simp add: c)
  from sentences_feedback_validation
    [of "[(''cat'', [''A cat.'', ''  ''])]" "example_world ''{}''"
        "JObj [(''items'', JArr (map typed_item [(''cat'', [''A cat.'', ''  ''])]))]" "[]"]
  have "status (fst (post_sentences_feedback (example_world ''{}'')
     (JObj [(''items'', JArr (map typed_item [(''cat'', [''A cat.'', ''  ''])]))]))) = 400 \<and>
   snd (post_sentences_feedback (example_world ''{}'')
     (JObj [(''items'', JArr (map typed_item [(''cat'', [''A cat.'', ''  ''])]))])) = []"
    unfolding n by simp
  with first show ?thesis by simp
qed

subsection \<open>Replies that parse to a falsy value\<close>

lemma not_blank: "\<not> blank t \<Longrightarrow> t \<noteq> [] \<and> js_trim t \<noteq> []"
  by (auto simp: blank_def js_trim_def)

lemma run_writing_feedback:
  assumes "t \<noteq> []"
    and "chat_completions_create w
           [Message ''system'' [Text ''B2''], Message ''user'' [Text ''Writing'', Text t]] = Inr c"
    and "\<not> truthy (parseJsonSafely w (trimmed_content c))"
  shows "post_writing_feedback w (JObj [(''text'', JStr t)]) =
     (bad_json ''Model did not return valid JSON.'' (trimmed_content c),
      [Completed [Message ''system'' [Text ''B2''], Message ''user'' [Text ''Writing'', Text t]]])"
  using assms
  by (simp add: post_writing_feedback_def Let_def js_or_def get_opt_def field_def dflt_def
      is_string_def and_then_def)

lemma run_vocabulary_plain:
  assumes "chat_completions_create w
           [Message ''system'' [Text ''B2''], Message ''user'' [Text t]] = Inr c"
    and "\<not> truthy (parseJsonSafely w (trimmed_content c))"
  shows "post_vocabulary_plain w (JObj [(''words'', JArr [JStr t])]) =
     (bad_json ''Model did not return a valid JSON array.'' (trimmed_content c),
      [Completed [Message ''system'' [Text ''B2''], Message ''user'' [Text t]]])"
  using assms
  by (simp add: post_vocabulary_plain_def Let_def js_or_def get_opt_def field_def dflt_def
      isArray_def elements_def and_then_def)

lemma run_vocabulary:
  assumes "js_trim t \<noteq> []"
    and "chat_completions_create w
           [Message ''system'' [Text ''B2'', Text ''B2''], Message ''user'' [Text (js_trim t)]] = Inr c"
    and "\<not> truthy (parseJsonSafely w (trimmed_content c))"
  shows "post_vocabulary w (JObj [(''words'', JArr [JStr t])]) =
     (bad_json ''Model did not return a valid JSON array.'' (trimmed_content c),
      [Completed [Message ''system'' [Text ''B2'', Text ''B2''],
                  Message ''user'' [Text (js_trim t)]]])"
proof -
  have cw: "cleanWords (JArr [JStr t]) = Inr [js_trim t]"
    using assms(1) by (simp add: cleanWords_def elements_def clean_text_JStr and_then_def)
  show ?thesis
    using assms(2,3)
    by (simp add: post_vocabulary_def Let_def js_or_def get_opt_def field_def dflt_def
        isArray_def elements_def cw normalizeLevel_B2 requested_langs_def and_then_def)
qed

lemma run_sentences_feedback:
  assumes "\<not> blank t"
    and "chat_completions_create w
           [Message ''system'' [Text ''B2''],
            Message ''user'' [Json (JObj [(''items'', JArr [item_json (clean_pair (t, [t, t]))])])]]
         = Inr c"
    and "\<not> truthy (parseJsonSafely w (plain_content c))"
  shows "post_sentences_feedback w (JObj [(''items'', JArr [typed_item (t, [t, t])])]) =
     (bad_json ''Model did not return valid JSON.'' (plain_content c),
      [Completed [Message ''system'' [Text ''B2''],
         Message ''user'' [Json (JObj [(''items'', JArr [item_json (clean_pair (t, [t, t]))])])]]])"
proof -
  have ci: "cleanItems (JArr [typed_item (t, [t, t])]) = Inr [clean_pair (t, [t, t])]"
    using cleanItems_typed [of "[(t, [t, t])]"] assms(1)
    by (simp add: valid_pair_def)
  show ?thesis
    using assms(2,3)
    by (simp add: post_sentences_feedback_def Let_def js_or_def get_opt_def field_def
        isArray_def elements_def ci)
qed

lemma run_resume_score_legacy:
  assumes "chat_completions_create w
           [Message ''system'' [Text ''B2''],
            Message ''user'' [Text t, Text [], Text [], Json (JArr []), Json (JObj [])]] = Inr c"
    and "\<not> truthy (parseJsonSafely w (trimmed_content c))"
  shows "post_resume_score_legacy w (JObj [(''writing1'', JStr t)]) =
     (bad_json ''Model did not return valid JSON.'' (trimmed_content c),
      [Completed [Message ''system'' [Text ''B2''],
         Message ''user'' [Text t, Text [], Text [], Json (JArr []), Json (JObj [])]]])"
  using assms
  by (simp add: post_resume_score_legacy_def Let_def js_or_def get_opt_def field_def dflt_def
      and_then_def)

lemma run_resume_score:
  assumes "\<not> blank t"
    and "chat_completions_create w
           [Message ''system'' [Text ''B2''],
            Message ''user'' [Json (JArr [JStr t]), Json (JArr []), Json (JObj [])]] = Inr c"
    and "\<not> truthy (parseJsonSafely w (trimmed_content c))"
  shows "post_resume_score w (JObj [(''drafts'', JArr [JStr t])]) =
     (bad_json ''Model did not return valid JSON.'' (trimmed_content c),
      [Completed [Message ''system'' [Text ''B2''],
         Message ''user'' [Json (JArr [JStr t]), Json (JArr []), Json (JObj [])]]])"
proof -
  have fd: "finalDrafts (JObj [(''drafts'', JArr [JStr t])]) = Inr [t]"
    using finalDrafts_drafts [of "[]" "[t]"] assms(1) by (simp add: field_def)
  show ?thesis
    using assms(2,3)
    by (simp add: post_resume_score_def Let_def js_or_def get_opt_def field_def fd
        normalizeLevel_B2 and_then_def isArray_def typeof_object_def)
qed

lemma sample_calls_run:
  assumes "(h, content, m, b, msgs) \<in> set (sample_calls t)" and "\<not> blank t"
    and "chat_completions_create w msgs = Inr c"
    and "\<not> truthy (parseJsonSafely w (content c))"
  shows "h w b = (bad_json m (content c), [Completed msgs])"
proof -
  note nb = not_blank [OF assms(2)]
  from assms(1) have "(h, content, m, b, msgs) = sample_calls t ! 0 \<or>
      (h, content, m, b, msgs) = sample_calls t ! 1 \<or>
      (h, content, m, b, msgs) = sample_calls t ! 2 \<or>
      (h, content, m, b, msgs) = sample_calls t ! 3 \<or>
      (h, content, m, b, msgs) = sample_calls t ! 4 \<or>
      (h, content, m, b, msgs) = sample_calls t ! 5"
    unfolding sample_calls_def by (simp only: set_simps insert_iff empty_iff nth_Cons_0 nth_Cons_numeral nth_Cons_Suc One_nat_def) simp
  then show ?thesis
    using assms(2-4) nb
    by (elim disjE)
      (simp_all add: sample_calls_def run_writing_feedback run_vocabulary_plain run_vocabulary
        run_sentences_feedback run_resume_score_legacy run_resume_score)
qed

lemma schema_writing:
  assumes "t \<noteq> []"
    and "responses_create w [Message ''system'' [Text ''B2'', Text ''Writing''], Message ''user'' [Text t]] = Inr out"
    and "JSON_parse w out = Some v"
  shows "post_writing_feedback_json_schema w (JObj [(''text'', JStr t)]) =
    (Json_response 200 v, [Completed [Message ''system'' [Text ''B2'', Text ''Writing''], Message ''user'' [Text t]]])"
  using assms
  by (simp add: post_writing_feedback_json_schema_def Let_def get_opt_def field_def dflt_def
      is_string_def and_then_def)

lemma schema_vocabulary:
  assumes "responses_create w [Message ''system'' [Text ''B2''], Message ''user'' [Text t]] = Inr out"
    and "JSON_parse w out = Some v"
  shows "post_vocabulary_json_schema w (JObj [(''words'', JArr [JStr t])]) =
    (Json_response 200 v, [Completed [Message ''system'' [Text ''B2''], Message ''user'' [Text t]]])"
  using assms
  by (simp add: post_vocabulary_json_schema_def Let_def get_opt_def field_def dflt_def
      isArray_def elements_def and_then_def)

lemma schema_resume:
  assumes "responses_create w [Message ''system'' [Text ''B2''],
        Message ''user'' [Text t, Text [], Text [], Text [], Json (JObj [])]] = Inr out"
    and "JSON_parse w out = Some v"
  shows "post_resume_score_json_schema w (JObj [(''writing1'', JStr t)]) =
    (Json_response 200 v, [Completed [Message ''system'' [Text ''B2''],
        Message ''user'' [Text t, Text [], Text [], Text [], Json (JObj [])]]])"
  using assms
  by (simp add: post_resume_score_json_schema_def Let_def get_opt_def field_def dflt_def
      isArray_def elements_def and_then_def)

lemma schema_calls_run:
  assumes "(h, b, msgs) \<in> set (schema_calls t)" and "t \<noteq> []"
    and "responses_create w msgs = Inr out" and "JSON_parse w out = Some v"
  shows "h w b = (Json_response 200 v, [Completed msgs])"
proof -
  from assms(1) have "(h, b, msgs) = schema_calls t ! 0 \<or> (h, b, msgs) = schema_calls t ! 1 \<or>
      (h, b, msgs) = schema_calls t ! 2"
    unfolding schema_calls_def by simp
  then show ?thesis
    using assms(2-4)
    by (elim disjE)
      (simp_all add: schema_calls_def schema_writing schema_vocabulary schema_resume)
qed

text \<open>
  C9 (amended). For every endpoint that reads the reply through \<open>parseJsonSafely\<close>
  (writing-feedback, vocabulary, sentences-feedback, resume-score): when the text it
  parses is valid JSON for a falsy value (\<^verbatim>\<open>null\<close>, \<^verbatim>\<open>false\<close>, \<^verbatim>\<open>0\<close> or the empty
  string), the response is the same as when the text is not JSON at all: the 502
  response carrying that text in \<^verbatim>\<open>raw\<close>; a response with status 200 is only produced
  when the text parsed to a truthy value; a reply without surrounding white space, such
  as the four literals, is parsed, and carried, as it is. Every one of these endpoints
  has a request (\<open>sample_calls\<close>) on which it does call the completion service, and
  answers a reply that does not parse, or parses to a falsy value, with that 502
  response. The schema-constrained versions of writing-feedback, vocabulary and
  resume-score do not read the reply through \<open>parseJsonSafely\<close>: on their requests
  (\<open>schema_calls\<close>) they answer with status 200 and the parsed value, whatever it is.
\<close>

theorem falsy_json_is_parse_failure:
  assumes "(h, content) \<in> set json_endpoints" and "h w b = (r, effs)"
  shows "(\<forall>msgs c. effs = [Completed msgs] \<and> chat_completions_create w msgs = Inr c \<and>
            (case JSON_parse w (content c) of None \<Rightarrow> True | Some v \<Rightarrow> \<not> truthy v) \<longrightarrow>
            (\<exists>m. r = Json_response 502
                      (JObj [(''error'', JStr m), (''raw'', JStr (content c))]))) \<and>
         (status r = 200 \<longrightarrow>
            (\<exists>msgs c v. effs = [Completed msgs] \<and> chat_completions_create w msgs = Inr c \<and>
               JSON_parse w (content c) = Some v \<and> truthy v)) \<and>
         (\<forall>s. js_trim s = s \<longrightarrow> content (Some s) = s) \<and>
         \<not> truthy JNull \<and> \<not> truthy (JBool False) \<and> \<not> truthy (JNum 0) \<and> \<not> truthy (JStr []) \<and>
         map (\<lambda>(h', content', m', b', msgs'). (h', content')) (sample_calls t) = json_endpoints \<and>
         (\<forall>m' b' msgs' c'.
            (h, content, m', b', msgs') \<in> set (sample_calls t) \<and> \<not> blank t \<and>
            chat_completions_create w msgs' = Inr c' \<and>
            (case JSON_parse w (content c') of None \<Rightarrow> True | Some v \<Rightarrow> \<not> truthy v) \<longrightarrow>
            h w b' = (Json_response 502 (JObj [(''error'', JStr m'), (''raw'', JStr (content c'))]),
                      [Completed msgs'])) \<and>
         (\<forall>hs bs ms out v.
            (hs, bs, ms) \<in> set (schema_calls t) \<and> t \<noteq> [] \<and>
            responses_create w ms = Inr out \<and> JSON_parse w out = Some v \<longrightarrow>
            hs w bs = (Json_response 200 v, [Completed ms]))"
proof -
  have c1: "\<forall>msgs c. effs = [Completed msgs] \<and> chat_completions_create w msgs = Inr c \<and>
            (case JSON_parse w (content c) of None \<Rightarrow> True | Some v \<Rightarrow> \<not> truthy v) \<longrightarrow>
            (\<exists>m. r = Json_response 502
                      (JObj [(''error'', JStr m), (''raw'', JStr (content c))]))"
  proof (intro allI impI)
    fix msgs c
    assume a: "effs = [Completed msgs] \<and> chat_completions_create w msgs = Inr c \<and>
            (case JSON_parse w (content c) of None \<Rightarrow> True | Some v \<Rightarrow> \<not> truthy v)"
    with assms have "reply_judged w (content c) r"
      by (auto intro: json_endpoints_judged)
    moreover from a have "\<not> truthy (parseJsonSafely w (content c))"
      by (simp add: parseJsonSafely_def split: option.splits)
    ultimately
    show "\<exists>m. r = Json_response 502 (JObj [(''error'', JStr m), (''raw'', JStr (content c))])"
      by (simp add: reply_judged_def bad_json_def)
  qed
  have c2: "status r = 200 \<longrightarrow>
            (\<exists>msgs c v. effs = [Completed msgs] \<and> chat_completions_create w msgs = Inr c \<and>
               JSON_parse w (content c) = Some v \<and> truthy v)"
  proof
    assume ok: "status r = 200"
    with assms obtain msgs c where e: "effs = [Completed msgs]"
      and c: "chat_completions_create w msgs = Inr c"
      by (blast dest: json_endpoints_200)
    with assms have "reply_judged w (content c) r"
      by (auto intro: json_endpoints_judged)
    with ok have "truthy (parseJsonSafely w (content c))"
      by (simp add: reply_judged_def)
    then obtain v where "JSON_parse w (content c) = Some v" "truthy v"
      by (blast dest: truthy_parseJsonSafely)
    with e c
    show "\<exists>msgs c v. effs = [Completed msgs] \<and> chat_completions_create w msgs = Inr c \<and>
               JSON_parse w (content c) = Some v \<and> truthy v" by blast
  qed
  have c3: "\<forall>s. js_trim s = s \<longrightarrow> content (Some s) = s"
  proof (intro allI impI)
    fix s :: string
    assume "js_trim s = s"
    with assms(1) show "content (Some s) = s" by (rule json_endpoints_content)
  qed
  have falsy: "\<not> truthy JNull" "\<not> truthy (JBool False)" "\<not> truthy (JNum 0)" "\<not> truthy (JStr [])"
    by simp_all
  have c4: "map (\<lambda>(h', content', m', b', msgs'). (h', content')) (sample_calls t) =
      json_endpoints"
    by (simp add: sample_calls_def json_endpoints_def)
  have c5: "\<forall>m' b' msgs' c'.
            (h, content, m', b', msgs') \<in> set (sample_calls t) \<and> \<not> blank t \<and>
            chat_completions_create w msgs' = Inr c' \<and>
            (case JSON_parse w (content c') of None \<Rightarrow> True | Some v \<Rightarrow> \<not> truthy v) \<longrightarrow>
            h w b' = (Json_response 502 (JObj [(''error'', JStr m'), (''raw'', JStr (content c'))]),
                      [Completed msgs'])"
  proof (intro allI impI, elim conjE)
    fix m' b' msgs' c'
    assume mem: "(h, content, m', b', msgs') \<in> set (sample_calls t)" and nb: "\<not> blank t"
      and call: "chat_completions_create w msgs' = Inr c'"
      and bad: "case JSON_parse w (content c') of None \<Rightarrow> True | Some v \<Rightarrow> \<not> truthy v"
    from bad have "\<not> truthy (parseJsonSafely w (content c'))"
      by (simp add: parseJsonSafely_def split: option.splits)
    with mem nb call have "h w b' = (bad_json m' (content c'), [Completed msgs'])"
      by (rule sample_calls_run)
    then show "h w b' =
        (Json_response 502 (JObj [(''error'', JStr m'), (''raw'', JStr (content c'))]),
         [Completed msgs'])"
      by (simp only: bad_json_def)
  qed
  have c6: "\<forall>hs bs ms out v.
            (hs, bs, ms) \<in> set (schema_calls t) \<and> t \<noteq> [] \<and>
            responses_create w ms = Inr out \<and> JSON_parse w out = Some v \<longrightarrow>
            hs w bs = (Json_response 200 v, [Completed ms])"
  proof (intro allI impI, elim conjE)
    fix hs bs ms out v
    assume "(hs, bs, ms) \<in> set (schema_calls t)" "t \<noteq> []"
      "responses_create w ms = Inr out" "JSON_parse w out = Some v"
    then show "hs w bs = (Json_response 200 v, [Completed ms])"
      by (rule schema_calls_run)
  qed
  note c1 c2 c3 falsy c4 c5 c6
  then show ?thesis by (intro conjI)
qed

theorem falsy_json_is_parse_failure_witness:
  "(post_resume_score, trimmed_content) \<in> set json_endpoints \<and>
   JSON_parse (example_world ''null'') ''null'' = Some JNull \<and> \<not> truthy JNull \<and>
   post_resume_score (example_world ''null'') (JObj [(''drafts'', JArr [JStr ''Hi''])]) =
     (Json_response 502
        (JObj [(''error'', JStr ''Model did not return valid JSON.''), (''raw'', JStr ''null'')]),
      [Completed [Message ''system'' [Text ''B2''],
         Message ''user'' [Json (JArr [JStr ''Hi'']), Json (JArr []), Json (JObj [])]]]) \<and>
   post_vocabulary_json_schema (example_world ''null'') (JObj [(''words'', JArr [JStr ''Hi''])]) =
     (Json_response 200 JNull,
      [Completed [Message ''system'' [Text ''B2''], Message ''user'' [Text ''Hi'']]]) \<and>
   fst (post_writing_feedback (example_world ''false'') (JObj [(''text'', JStr ''Hi'')])) =
     Json_response 502
       (JObj [(''error'', JStr ''Model did not return valid JSON.''), (''raw'', JStr ''false'')]) \<and>
   fst (post_writing_feedback (example_world ''0'') (JObj [(''text'', JStr ''Hi'')])) =
     Json_response 502
       (JObj [(''error'', JStr ''Model did not return valid JSON.''), (''raw'', JStr ''0'')]) \<and>
   fst (post_writing_feedback (example_world [CHR 0x22, CHR 0x22])
          (JObj [(''text'', JStr ''Hi'')])) =
     Json_response 502
       (JObj [(''error'', JStr ''Model did not return valid JSON.''),
              (''raw'', JStr [CHR 0x22, CHR 0x22])]) \<and>
   fst (post_writing_feedback (example_world ''{}'') (JObj [(''text'', JStr ''Hi'')])) =
     Json_response 200 (JObj [])"
proof -
  have literals:
    "fst (post_writing_feedback (example_world ''false'') (JObj [(''text'', JStr ''Hi'')])) =
       Json_response 502
         (JObj [(''error'', JStr ''Model did not return valid JSON.''), (''raw'', JStr ''false'')])"
    "fst (post_writing_feedback (example_world ''0'') (JObj [(''text'', JStr ''Hi'')])) =
       Json_response 502
         (JObj [(''error'', JStr ''Model did not return valid JSON.''), (''raw'', JStr ''0'')])"
    "fst (post_writing_feedback (example_world [CHR 0x22, CHR 0x22])
            (JObj [(''text'', JStr ''Hi'')])) =
       Json_response 502
         (JObj [(''error'', JStr ''Model did not return valid JSON.''),
                (''raw'', JStr [CHR 0x22, CHR 0x22])])"
    "fst (post_writing_feedback (example_world ''{}'') (JObj [(''text'', JStr ''Hi'')])) =
       Json_response 200 (JObj [])"
    by code_simp+
  let ?w = "example_world ''null''"
  let ?b = "JObj [(''drafts'', JArr [JStr ''Hi''])]"
  let ?msgs = "[Message ''system'' [Text ''B2''],
                Message ''user'' [Json (JArr [JStr ''Hi'']), Json (JArr []), Json (JObj [])]]"
  let ?ms = "[Message ''system'' [Text ''B2''], Message ''user'' [Text ''Hi'']]"
  have mem: "(post_resume_score, trimmed_content) \<in> set json_endpoints"
    by (simp add: json_endpoints_def)
  have run: "post_resume_score ?w ?b =
      (fst (post_resume_score ?w ?b), snd (post_resume_score ?w ?b))"
    by simp
  have sample: "(post_resume_score, trimmed_content, ''Model did not return valid JSON.'',
      ?b, ?msgs) \<in> set (sample_calls ''Hi'')"
    by (simp add: sample_calls_def)
  have schema: "(post_vocabulary_json_schema, JObj [(''words'', JArr [JStr ''Hi''])], ?ms)
      \<in> set (schema_calls ''Hi'')"
    by (simp add: schema_calls_def)
  have reply: "chat_completions_create ?w ?msgs = Inr (Some ''null'')"
    "responses_create ?w ?ms = Inr ''null''"
    by (simp_all add: example_world_def)
  have trimmed: "trimmed_content (Some ''null'') = ''null''"
    by (simp add: trimmed_content_def js_trim_def is_space_def)
  have parsed: "JSON_parse ?w ''null'' = Some JNull"
    by (simp add: example_world_def parse_table_def)
  have nb: "\<not> blank ''Hi''" "''Hi'' \<noteq> []"
    by (simp_all add: blank_def js_trim_def is_space_def)
  have bad: "case JSON_parse ?w (trimmed_content (Some ''null'')) of
               None \<Rightarrow> True | Some v \<Rightarrow> \<not> truthy v"
    by (simp add: trimmed parsed)
  note inst = falsy_json_is_parse_failure [OF mem run, where t = "''Hi''"]
  note on_sample = inst [THEN conjunct2, THEN conjunct2, THEN conjunct2, THEN conjunct2,
    THEN conjunct2, THEN conjunct2, THEN conjunct2, THEN conjunct2, THEN conjunct1, rule_format]
  note on_schema = inst [THEN conjunct2, THEN conjunct2, THEN conjunct2, THEN conjunct2,
    THEN conjunct2, THEN conjunct2, THEN conjunct2, THEN conjunct2, THEN conjunct2, rule_format]
  from sample nb(1) reply(1) bad
  have "post_resume_score ?w ?b =
     (Json_response 502
        (JObj [(''error'', JStr ''Model did not return valid JSON.''),
               (''raw'', JStr (trimmed_content (Some ''null'')))]),
      [Completed ?msgs])"
    by (intro on_sample conjI)
  then have a: "post_resume_score ?w ?b =
     (Json_response 502
        (JObj [(''error'', JStr ''Model did not return valid JSON.''), (''raw'', JStr ''null'')]),
      [Completed ?msgs])"
    by (simp only: trimmed)
  from schema nb(2) reply(2) parsed
  have b: "post_vocabulary_json_schema ?w (JObj [(''words'', JArr [JStr ''Hi''])]) =
     (Json_response 200 JNull, [Completed ?ms])"
    by (intro on_schema conjI)
  from mem parsed a b literals show ?thesis by simp
qed

text \<open>
  The schema-constrained version of writing-feedback answers the reply \<^verbatim>\<open>null\<close>, which
  parses to the falsy value \<^verbatim>\<open>null\<close>, with status 200 and the body \<^verbatim>\<open>null\<close>: for this
  endpoint a falsy value is no parse failure, and a 200 response is produced from it.
\<close>

theorem falsy_json_schema_200_counterexample:
  "JSON_parse (example_world ''null'') ''null'' = Some JNull \<and> \<not> truthy JNull \<and>
   post_writing_feedback_json_schema (example_world ''null'') (JObj [(''text'', JStr ''Hi'')]) =
     (Json_response 200 JNull,
      [Completed [Message ''system'' [Text ''B2'', Text ''Writing''],
                  Message ''user'' [Text ''Hi'']]])"
  by code_simp

end
